theory Spec2Isabelle
  imports Main
begin

section \<open>Data model\<close>

text \<open>
  The message, attachment and conversation shapes of \<^verbatim>\<open>src/types/index.ts\<close>, which are
  also the JSON objects the server stores and returns. Timestamps are ISO-8601 strings in
  the source (\<^verbatim>\<open>new Date().toISOString()\<close>); they are modelled by the instant they
  denote, in milliseconds, since that rendering preserves the order of instants.
\<close>

datatype role = User | Assistant | System

datatype attachment_type = Code | Image | File | Visualization

record attachment =
  att_id :: "string option"
  att_type :: attachment_type
  att_url :: "string option"
  att_content :: "string option"
  att_language :: "string option"
  att_chartType :: "string option"

record message =
  msg_id :: string
  role :: role
  content :: string
  timestamp :: int
  attachments :: "attachment list"

text \<open>The object built by the \<^verbatim>\<open>Conversation\<close> class (and its \<^verbatim>\<open>toJSON\<close>).\<close>

record conversation =
  conv_id :: string
  userId :: string
  title :: string
  messages :: "message list"
  createdAt :: int
  updatedAt :: int

record conversation_summary =
  sum_id :: string
  sum_title :: string
  messageCount :: nat
  lastMessage :: "message option"
  sum_createdAt :: int
  sum_updatedAt :: int

section \<open>The conversation store (\<^verbatim>\<open>src/config/database.js\<close>, \<^verbatim>\<open>models/Conversation\<close>)\<close>

text \<open>
  A row of the \<^verbatim>\<open>conversations\<close> table. \<^verbatim>\<open>messages\<close> is a nullable JSONB column
  (default \<^verbatim>\<open>'[]'\<close>), so it is optional here.
\<close>

record row =
  row_id :: string
  user_id :: string
  row_title :: string
  row_messages :: "message list option"
  created_at :: int
  updated_at :: int

record emission =
  room :: string
  event :: string
  ev_conversationId :: string
  ev_message :: "message option"

text \<open>
  The server's mutable world: the table (keyed by its primary key), how many queries,
  UUIDs and clock readings have been consumed so far, and the socket emissions in order.
\<close>

record world =
  rows :: "string \<rightharpoonup> row"
  queries :: nat
  uuids :: nat
  dates :: nat
  emitted :: "emission list"

record mock_response =
  mock_content :: string
  mock_attachments :: "attachment list option"

record ai_response =
  ai_content :: string
  ai_attachments :: "attachment list"

text \<open>
  What the code takes from outside the repository: the validator library's UUID test, the
  results of \<^verbatim>\<open>crypto.randomUUID()\<close> and \<^verbatim>\<open>new Date()\<close> by call number, the
  database's \<^verbatim>\<open>CURRENT_TIMESTAMP\<close> and whether the database rejects a query, by query
  number, the mock response backend of \<^verbatim>\<open>src/utils/aiService.js\<close> (API-config lookup,
  random delay and canned texts; it may throw), and whether the application has a socket
  server registered under \<^verbatim>\<open>'io'\<close>.
\<close>

record env =
  isUUID :: "string \<Rightarrow> bool"
  randomUUID :: "nat \<Rightarrow> string"
  date_now :: "nat \<Rightarrow> int"
  current_timestamp :: "nat \<Rightarrow> int"
  query_rejects :: "nat \<Rightarrow> bool"
  mock_backend :: "string \<Rightarrow> string \<Rightarrow> string + mock_response"
  io :: bool

datatype error = StoreError | TypeError | GeneratorError string

text \<open>The SQL statements \<^verbatim>\<open>models/Conversation\<close> sends, with their parameters.\<close>

datatype sql =
    SelectById string
  | SelectByIdAndUser string string
  | UpdateMessages "message list" string
  | UpdateTitle "string option" string
  | DeleteById string

text \<open>
  \<^verbatim>\<open>pgPool.query\<close>: the promise rejects when the database does (connection loss, or a
  violated column constraint: \<^verbatim>\<open>title VARCHAR(255) NOT NULL\<close>); otherwise the statement
  runs on the table and the affected rows come back (\<^verbatim>\<open>RETURNING *\<close>).
\<close>

definition pgPool_query :: "env \<Rightarrow> sql \<Rightarrow> world \<Rightarrow> (error + row list) \<times> world" where
  "pgPool_query e q w =
     (let n = queries w; w' = w\<lparr>queries := Suc n\<rparr> in
      if query_rejects e n then (Inl StoreError, w')
      else (case q of
          SelectById i \<Rightarrow>
            (case rows w i of None \<Rightarrow> (Inr [], w') | Some r \<Rightarrow> (Inr [r], w'))
        | SelectByIdAndUser i u \<Rightarrow>
            (case rows w i of
               None \<Rightarrow> (Inr [], w')
             | Some r \<Rightarrow> if user_id r = u then (Inr [r], w') else (Inr [], w'))
        | UpdateMessages ms i \<Rightarrow>
            (case rows w i of
               None \<Rightarrow> (Inr [], w')
             | Some r \<Rightarrow>
                 (let r' = r\<lparr>row_messages := Some ms, updated_at := current_timestamp e n\<rparr>
                  in (Inr [r'], w'\<lparr>rows := (rows w)(i \<mapsto> r')\<rparr>)))
        | UpdateTitle t i \<Rightarrow>
            (case rows w i of
               None \<Rightarrow> (Inr [], w')
             | Some r \<Rightarrow>
                 (case t of
                    None \<Rightarrow> (Inl StoreError, w')
                  | Some s \<Rightarrow>
                      if length s > 255 then (Inl StoreError, w')
                      else (let r' = r\<lparr>row_title := s, updated_at := current_timestamp e n\<rparr>
                            in (Inr [r'], w'\<lparr>rows := (rows w)(i \<mapsto> r')\<rparr>))))
        | DeleteById i \<Rightarrow> (Inr [], w'\<lparr>rows := (rows w)(i := None)\<rparr>)))"

text \<open>The constructor: \<^verbatim>\<open>this.messages = data.messages || []\<close>.\<close>

definition Conversation_new :: "row \<Rightarrow> conversation" where
  "Conversation_new d =
     \<lparr>conv_id = row_id d, userId = user_id d, title = row_title d,
      messages = (case row_messages d of None \<Rightarrow> [] | Some ms \<Rightarrow> ms),
      createdAt = created_at d, updatedAt = updated_at d\<rparr>"

text \<open>
  \<^verbatim>\<open>new Conversation(result.rows[0])\<close>: with no row, \<^verbatim>\<open>data\<close> is undefined and reading
  \<^verbatim>\<open>data.id\<close> throws a TypeError.
\<close>

definition Conversation_of_rows :: "row list \<Rightarrow> error + conversation" where
  "Conversation_of_rows rs =
     (case rs of [] \<Rightarrow> Inl TypeError | r # _ \<Rightarrow> Inr (Conversation_new r))"

text \<open>
  \<^verbatim>\<open>static async findById(id, userId = null)\<close>. The owner clause is added under
  \<^verbatim>\<open>if (userId)\<close>: null, undefined and the empty string are falsy.
\<close>

definition findById ::
  "env \<Rightarrow> string \<Rightarrow> string option \<Rightarrow> world \<Rightarrow> (error + conversation option) \<times> world" where
  "findById e i userId' w =
     (let q = (case userId' of
                 None \<Rightarrow> SelectById i
               | Some u \<Rightarrow> if u = [] then SelectById i else SelectByIdAndUser i u) in
      case pgPool_query e q w of
        (Inl err, w') \<Rightarrow> (Inl err, w')
      | (Inr rs, w') \<Rightarrow>
          (case rs of
             [] \<Rightarrow> (Inr None, w')
           | r # _ \<Rightarrow> (Inr (Some (Conversation_new r)), w')))"

record new_message =
  nm_role :: role
  nm_content :: string
  nm_attachments :: "attachment list"

text \<open>
  \<^verbatim>\<open>async addMessage(message)\<close>. The method pushes onto \<^verbatim>\<open>this.messages\<close> before it
  sends the update, so the receiver is changed even when the query then rejects: the
  second component is the receiver after the call, the first what the call returns or
  throws.
\<close>

definition addMessage ::
  "env \<Rightarrow> conversation \<Rightarrow> new_message \<Rightarrow> world
     \<Rightarrow> (error + conversation) \<times> conversation \<times> world" where
  "addMessage e this m w =
     (let newMessage =
            \<lparr>msg_id = randomUUID e (uuids w), role = nm_role m, content = nm_content m,
             timestamp = date_now e (dates w), attachments = nm_attachments m\<rparr>;
          this' = this\<lparr>messages := messages this @ [newMessage]\<rparr>;
          w1 = w\<lparr>uuids := Suc (uuids w), dates := Suc (dates w)\<rparr>
      in case pgPool_query e (UpdateMessages (messages this') (conv_id this')) w1 of
           (Inl err, w2) \<Rightarrow> (Inl err, this', w2)
         | (Inr rs, w2) \<Rightarrow> (Conversation_of_rows rs, this', w2))"

text \<open>\<^verbatim>\<open>async updateTitle(title)\<close>.\<close>

definition updateTitle ::
  "env \<Rightarrow> conversation \<Rightarrow> string option \<Rightarrow> world \<Rightarrow> (error + conversation) \<times> world" where
  "updateTitle e this t w =
     (case pgPool_query e (UpdateTitle t (conv_id this)) w of
        (Inl err, w') \<Rightarrow> (Inl err, w')
      | (Inr rs, w') \<Rightarrow> (Conversation_of_rows rs, w'))"

text \<open>\<^verbatim>\<open>getSummary()\<close>, and the same object literal built three times in the client.\<close>

definition getSummary :: "conversation \<Rightarrow> conversation_summary" where
  "getSummary c =
     \<lparr>sum_id = conv_id c, sum_title = title c, messageCount = length (messages c),
      lastMessage = (if messages c = [] then None else Some (last (messages c))),
      sum_createdAt = createdAt c, sum_updatedAt = updatedAt c\<rparr>"

section \<open>Request validation (\<^verbatim>\<open>src/middleware/validation.js\<close>)\<close>

text \<open>
  Strings are lists of 8-bit characters. Of the characters JavaScript's \<^verbatim>\<open>\\s\<close>
  matches, those in that range are TAB, LF, VT, FF, CR, SPACE and NBSP.
\<close>

definition is_space :: "char \<Rightarrow> bool" where
  "is_space c = (of_char c \<in> {9, 10, 11, 12, 13, 32, 160 :: nat})"

definition trim :: "string \<Rightarrow> string" where
  "trim s = rev (dropWhile is_space (rev (dropWhile is_space s)))"

text \<open>
  The request as the handlers read it: \<^verbatim>\<open>req.params.id\<close>, \<^verbatim>\<open>req.user.id\<close> (set by
  the authentication middleware, which runs first and is not part of this development)
  and the fields of \<^verbatim>\<open>req.body\<close>. A missing \<^verbatim>\<open>message\<close> is validated as the empty
  string.
\<close>

record request =
  param_id :: string
  req_user_id :: string
  body_message :: string
  body_attachments :: "attachment list option"
  body_conversationId :: "string option"
  body_title :: "string option"

datatype body =
    ErrorBody string
  | ValidationFailed "string list"
  | ConversationBody string conversation

datatype response = Response (status: nat) (body: body)

text \<open>\<^verbatim>\<open>validateUUIDParam('id')\<close> followed by \<^verbatim>\<open>handleValidationErrors\<close>.\<close>

definition validateUUIDParam :: "env \<Rightarrow> request \<Rightarrow> response + request" where
  "validateUUIDParam e req =
     (if isUUID e (param_id req) then Inr req
      else Inl (Response 400 (ValidationFailed [''id must be a valid UUID''])))"

text \<open>
  \<^verbatim>\<open>validateChatMessage\<close>: the message is trimmed in place, then its length is checked;
  \<^verbatim>\<open>conversationId\<close> is checked only when present; \<^verbatim>\<open>handleValidationErrors\<close>
  answers 400 when any check failed.
\<close>

definition validateChatMessage :: "env \<Rightarrow> request \<Rightarrow> response + request" where
  "validateChatMessage e req =
     (let m = trim (body_message req);
          req' = req\<lparr>body_message := m\<rparr>;
          errors =
            (if 1 \<le> length m \<and> length m \<le> 10000 then []
             else [''Message must be between 1 and 10000 characters'']) @
            (case body_conversationId req of
               None \<Rightarrow> []
             | Some c \<Rightarrow>
                 if isUUID e c then [] else [''Conversation ID must be a valid UUID''])
      in if errors = [] then Inr req' else Inl (Response 400 (ValidationFailed errors)))"

section \<open>The response generator (\<^verbatim>\<open>src/utils/aiService.js\<close>)\<close>

definition generateAIResponse :: "env \<Rightarrow> message list \<Rightarrow> string \<Rightarrow> error + ai_response" where
  "generateAIResponse e ms uid =
     (if ms = [] then Inl (GeneratorError ''No user message found'')
      else if role (last ms) \<noteq> User then Inl (GeneratorError ''No user message found'')
      else (case mock_backend e uid (content (last ms)) of
              Inl err \<Rightarrow> Inl (GeneratorError err)
            | Inr r \<Rightarrow>
                Inr \<lparr>ai_content = mock_content r,
                     ai_attachments =
                       (case mock_attachments r of None \<Rightarrow> [] | Some a \<Rightarrow> a)\<rparr>))"

section \<open>The chat routes (\<^verbatim>\<open>src/routes/chat.js\<close>)\<close>

definition fallback_text :: string where
  "fallback_text =
     ''I apologize, but I encountered an error while processing your request. Please try again.''"

definition send_failed :: response where
  "send_failed = Response 500 (ErrorBody ''Failed to send message'')"

definition not_found :: response where
  "not_found = Response 404 (ErrorBody ''Conversation not found'')"

definition message_sent :: "conversation \<Rightarrow> response" where
  "message_sent c = Response 200 (ConversationBody ''Message sent successfully'' c)"

text \<open>
  \<^verbatim>\<open>io.to(`user-${req.user.id}`).emit('message-received', {conversationId, message})\<close>
  where the message is the last element of \<^verbatim>\<open>conversation.messages\<close> (undefined when
  there is none).
\<close>

definition emit_message_received :: "string \<Rightarrow> conversation \<Rightarrow> world \<Rightarrow> world" where
  "emit_message_received uid c w =
     w\<lparr>emitted := emitted w @
        [\<lparr>room = ''user-'' @ uid, event = ''message-received'',
          ev_conversationId = conv_id c,
          ev_message = (if messages c = [] then None else Some (last (messages c)))\<rparr>]\<rparr>"

text \<open>The \<^verbatim>\<open>catch (aiError)\<close> block and the response after it.\<close>

definition add_error_message :: "env \<Rightarrow> conversation \<Rightarrow> world \<Rightarrow> response \<times> world" where
  "add_error_message e c w =
     (case addMessage e c
             \<lparr>nm_role = Assistant, nm_content = fallback_text, nm_attachments = []\<rparr> w of
        (Inl err, _, w') \<Rightarrow> (send_failed, w')
      | (Inr c', _, w') \<Rightarrow> (message_sent c', w'))"

text \<open>
  The inner \<^verbatim>\<open>try\<close> block: generate, append the reply, emit. Whatever throws inside
  it, the generator or the append, is caught by \<^verbatim>\<open>catch (aiError)\<close>; the conversation
  object the handler holds at that point is the one the failed append has pushed onto.
\<close>

definition generate_and_append ::
  "env \<Rightarrow> string \<Rightarrow> conversation \<Rightarrow> world \<Rightarrow> response \<times> world" where
  "generate_and_append e uid c w =
     (case generateAIResponse e (messages c) uid of
        Inl err \<Rightarrow> add_error_message e c w
      | Inr aiResponse \<Rightarrow>
          (case addMessage e c
                  \<lparr>nm_role = Assistant, nm_content = ai_content aiResponse,
                   nm_attachments = ai_attachments aiResponse\<rparr> w of
             (Inl err, c_pushed, w') \<Rightarrow> add_error_message e c_pushed w'
           | (Inr c', _, w') \<Rightarrow>
               (message_sent c',
                if io e then emit_message_received uid c' w' else w')))"

text \<open>The handler of \<^verbatim>\<open>POST /conversations/:id/messages\<close>, after the middleware.\<close>

definition send_message_handler :: "env \<Rightarrow> request \<Rightarrow> world \<Rightarrow> response \<times> world" where
  "send_message_handler e req w =
     (let message = body_message req;
          atts = (case body_attachments req of None \<Rightarrow> [] | Some a \<Rightarrow> a)
      in case findById e (param_id req) (Some (req_user_id req)) w of
           (Inl err, w1) \<Rightarrow> (send_failed, w1)
         | (Inr None, w1) \<Rightarrow> (not_found, w1)
         | (Inr (Some c), w1) \<Rightarrow>
             (case addMessage e c
                     \<lparr>nm_role = User, nm_content = message, nm_attachments = atts\<rparr> w1 of
                (Inl err, _, w2) \<Rightarrow> (send_failed, w2)
              | (Inr c1, _, w2) \<Rightarrow> generate_and_append e (req_user_id req) c1 w2))"

text \<open>
  The route: \<^verbatim>\<open>validateUUIDParam('id')\<close>, \<^verbatim>\<open>validateChatMessage\<close>, then the handler.
\<close>

definition post_message :: "env \<Rightarrow> request \<Rightarrow> world \<Rightarrow> response \<times> world" where
  "post_message e req w =
     (case validateUUIDParam e req of
        Inl resp \<Rightarrow> (resp, w)
      | Inr req1 \<Rightarrow>
          (case validateChatMessage e req1 of
             Inl resp \<Rightarrow> (resp, w)
           | Inr req2 \<Rightarrow> send_message_handler e req2 w))"

text \<open>\<^verbatim>\<open>PUT /conversations/:id\<close>: the id is validated, the title is not.\<close>

definition put_conversation :: "env \<Rightarrow> request \<Rightarrow> world \<Rightarrow> response \<times> world" where
  "put_conversation e req w =
     (case validateUUIDParam e req of
        Inl resp \<Rightarrow> (resp, w)
      | Inr req1 \<Rightarrow>
          (case findById e (param_id req1) (Some (req_user_id req1)) w of
             (Inl err, w1) \<Rightarrow> (Response 500 (ErrorBody ''Failed to update conversation''), w1)
           | (Inr None, w1) \<Rightarrow> (not_found, w1)
           | (Inr (Some c), w1) \<Rightarrow>
               (case updateTitle e c (body_title req1) w1 of
                  (Inl err, w2) \<Rightarrow>
                    (Response 500 (ErrorBody ''Failed to update conversation''), w2)
                | (Inr c', w2) \<Rightarrow>
                    (Response 200 (ConversationBody ''Conversation updated successfully'' c'),
                     w2))))"

section \<open>Client conversation state (\<^verbatim>\<open>src/context/ChatContext.tsx\<close>)\<close>

record chat_state =
  conversations :: "conversation_summary list"
  currentConversation :: "conversation option"
  isLoading :: bool
  isTyping :: bool
  error :: "string option"

datatype chat_action =
    SET_LOADING bool
  | SET_TYPING bool
  | SET_CONVERSATIONS "conversation_summary list"
  | ADD_CONVERSATION conversation_summary
  | UPDATE_CONVERSATION conversation_summary
  | REMOVE_CONVERSATION string
  | SET_CURRENT_CONVERSATION "conversation option"
  | ADD_MESSAGE string message
  | UPDATE_CURRENT_CONVERSATION conversation
  | SET_ERROR string
  | CLEAR_ERROR

definition initialState :: chat_state where
  "initialState =
     \<lparr>conversations = [], currentConversation = None, isLoading = False, isTyping = False,
      error = None\<rparr>"

fun chatReducer :: "chat_state \<Rightarrow> chat_action \<Rightarrow> chat_state" where
  "chatReducer state (SET_LOADING p) = state\<lparr>isLoading := p\<rparr>"
| "chatReducer state (SET_TYPING p) = state\<lparr>isTyping := p\<rparr>"
| "chatReducer state (SET_CONVERSATIONS p) = state\<lparr>conversations := p\<rparr>"
| "chatReducer state (ADD_CONVERSATION p) =
     state\<lparr>conversations := p # conversations state\<rparr>"
| "chatReducer state (UPDATE_CONVERSATION p) =
     state\<lparr>conversations :=
       map (\<lambda>conv. if sum_id conv = sum_id p then p else conv) (conversations state)\<rparr>"
| "chatReducer state (REMOVE_CONVERSATION p) =
     state\<lparr>conversations := filter (\<lambda>conv. sum_id conv \<noteq> p) (conversations state),
           currentConversation :=
             (case currentConversation state of
                None \<Rightarrow> None
              | Some c \<Rightarrow> if conv_id c = p then None else Some c)\<rparr>"
| "chatReducer state (SET_CURRENT_CONVERSATION p) = state\<lparr>currentConversation := p\<rparr>"
| "chatReducer state (ADD_MESSAGE conversationId m) =
     (case currentConversation state of
        None \<Rightarrow> state
      | Some c \<Rightarrow>
          if conv_id c = conversationId
          then state\<lparr>currentConversation := Some (c\<lparr>messages := messages c @ [m]\<rparr>)\<rparr>
          else state)"
| "chatReducer state (UPDATE_CURRENT_CONVERSATION p) =
     state\<lparr>currentConversation := Some p\<rparr>"
| "chatReducer state (SET_ERROR p) =
     state\<lparr>error := Some p, isLoading := False, isTyping := False\<rparr>"
| "chatReducer state CLEAR_ERROR = state\<lparr>error := None\<rparr>"

text \<open>
  What the client's API service hands back (\<^verbatim>\<open>src/services/api.ts\<close>): the body of the
  HTTP answer, read as an \<^verbatim>\<open>ApiResponse\<close>. \<open>api_success\<close> is the truthiness of the
  body's \<^verbatim>\<open>success\<close> field, \<open>api_data\<close> the conversation under its \<^verbatim>\<open>data\<close> field,
  \<open>api_error\<close> its \<^verbatim>\<open>error\<close> field; an absent field is false or \<open>None\<close>.
\<close>

record api_response =
  api_success :: bool
  api_data :: "conversation option"
  api_error :: "string option"

text \<open>
  The bodies \<^verbatim>\<open>src/routes/chat.js\<close> sends, read that way. A success body there is
  \<^verbatim>\<open>{message, conversation}\<close>: it has neither a \<^verbatim>\<open>success\<close> nor a \<^verbatim>\<open>data\<close> field.
\<close>

definition as_api_response :: "body \<Rightarrow> api_response" where
  "as_api_response b =
     (case b of
        ErrorBody msg \<Rightarrow> \<lparr>api_success = False, api_data = None, api_error = Some msg\<rparr>
      | ValidationFailed details \<Rightarrow>
          \<lparr>api_success = False, api_data = None, api_error = Some ''Validation failed''\<rparr>
      | ConversationBody msg c \<Rightarrow>
          \<lparr>api_success = False, api_data = None, api_error = None\<rparr>)"

text \<open>The three decimal digits of an HTTP status.\<close>

definition status_digits :: "nat \<Rightarrow> string" where
  "status_digits n =
     [char_of (48 + n div 100 mod 10), char_of (48 + n div 10 mod 10), char_of (48 + n mod 10)]"

text \<open>
  Awaiting \<^verbatim>\<open>apiService.sendMessage\<close> or \<^verbatim>\<open>apiService.updateConversation\<close>: axios
  resolves with the body for a status from 200 to 299 and rejects otherwise, the error's
  message naming the status. (The response interceptor acts on status 401 only, which
  the two routes above never send.)
\<close>

definition apiService_await :: "response \<Rightarrow> string + api_response" where
  "apiService_await r =
     (if 200 \<le> status r \<and> status r < 300 then Inr (as_api_response (body r))
      else Inl (''Request failed with status code '' @ status_digits (status r)))"

text \<open>\<^verbatim>\<open>response.error || fallback\<close>: an absent or empty error gives the fallback.\<close>

definition error_or :: "string option \<Rightarrow> string \<Rightarrow> string" where
  "error_or err fallback =
     (case err of None \<Rightarrow> fallback | Some m \<Rightarrow> if m = [] then fallback else m)"

text \<open>
  \<^verbatim>\<open>sendMessage\<close>, given what awaiting the API service produced. The typing flag is set
  before the call and cleared in \<^verbatim>\<open>finally\<close>. Only a response with \<^verbatim>\<open>success\<close> and
  \<^verbatim>\<open>data\<close> replaces the open conversation and updates the list entry; any other
  response, and a rejection, is recorded with \<^verbatim>\<open>SET_ERROR\<close> and thrown on to the
  caller. The first component is the message of the error thrown, if any.
\<close>

definition sendMessage ::
  "chat_state \<Rightarrow> string + api_response \<Rightarrow> string option \<times> chat_state" where
  "sendMessage state awaited =
     (let state1 = chatReducer state (SET_TYPING True);
          failed = (\<lambda>msg.
            (Some msg, chatReducer (chatReducer state1 (SET_ERROR msg)) (SET_TYPING False)))
      in case awaited of
           Inl msg \<Rightarrow> failed msg
         | Inr response \<Rightarrow>
             (case api_data response of
                None \<Rightarrow> failed (error_or (api_error response) ''Failed to send message'')
              | Some updatedConv \<Rightarrow>
                  if api_success response
                  then (None,
                        chatReducer
                          (chatReducer
                             (chatReducer state1 (UPDATE_CURRENT_CONVERSATION updatedConv))
                             (UPDATE_CONVERSATION (getSummary updatedConv)))
                          (SET_TYPING False))
                  else failed (error_or (api_error response) ''Failed to send message'')))"

text \<open>\<^verbatim>\<open>updateConversationTitle(id, title)\<close>, given what awaiting the API service produced.\<close>

definition updateConversationTitle ::
  "chat_state \<Rightarrow> string \<Rightarrow> string + api_response \<Rightarrow> string option \<times> chat_state" where
  "updateConversationTitle state i awaited =
     (let failed = (\<lambda>msg. (Some msg, chatReducer state (SET_ERROR msg)))
      in case awaited of
           Inl msg \<Rightarrow> failed msg
         | Inr response \<Rightarrow>
             (case api_data response of
                None \<Rightarrow> failed (error_or (api_error response) ''Failed to update conversation'')
              | Some c \<Rightarrow>
                  if api_success response
                  then (let state1 =
                              (case currentConversation state of
                                 None \<Rightarrow> state
                               | Some cur \<Rightarrow>
                                   if conv_id cur = i
                                   then chatReducer state (SET_CURRENT_CONVERSATION (Some c))
                                   else state)
                        in (None, chatReducer state1 (UPDATE_CONVERSATION (getSummary c))))
                  else failed
                         (error_or (api_error response) ''Failed to update conversation'')))"

section \<open>Notions used in the statements\<close>

text \<open>A request that passes both validation middlewares of the message route.\<close>

definition valid_submission :: "env \<Rightarrow> request \<Rightarrow> bool" where
  "valid_submission e req =
     (isUUID e (param_id req) \<and>
      1 \<le> length (trim (body_message req)) \<and> length (trim (body_message req)) \<le> 10000 \<and>
      (case body_conversationId req of None \<Rightarrow> True | Some c \<Rightarrow> isUUID e c))"

text \<open>
  The message \<^verbatim>\<open>addMessage\<close> builds from the \<open>nu\<close>-th UUID and the \<open>nd\<close>-th clock
  reading, and the row an accepted \<^verbatim>\<open>UPDATE ... SET messages\<close> leaves as query \<open>nq\<close>.
\<close>

definition made :: "env \<Rightarrow> nat \<Rightarrow> nat \<Rightarrow> role \<Rightarrow> string \<Rightarrow> attachment list \<Rightarrow> message" where
  "made e nu nd rl txt atts =
     \<lparr>msg_id = randomUUID e nu, role = rl, content = txt, timestamp = date_now e nd,
      attachments = atts\<rparr>"

definition stored :: "env \<Rightarrow> nat \<Rightarrow> row \<Rightarrow> message list \<Rightarrow> row" where
  "stored e nq r ms = r\<lparr>row_messages := Some ms, updated_at := current_timestamp e nq\<rparr>"

text \<open>The user message the handler appends for a request arriving in world \<open>w\<close>.\<close>

definition submitted :: "env \<Rightarrow> request \<Rightarrow> world \<Rightarrow> message" where
  "submitted e req w =
     made e (uuids w) (dates w) User (trim (body_message req))
       (case body_attachments req of None \<Rightarrow> [] | Some a \<Rightarrow> a)"

text \<open>The assistant message appended as the \<open>k\<close>-th message after the user's.\<close>

definition replied :: "env \<Rightarrow> world \<Rightarrow> nat \<Rightarrow> string \<Rightarrow> attachment list \<Rightarrow> message" where
  "replied e w k txt atts = made e (uuids w + k) (dates w + k) Assistant txt atts"

section \<open>Example values\<close>

text \<open>
  A concrete environment (nothing rejects, the backend answers, a socket server is
  registered), one stored conversation without messages, and a request by its owner.
\<close>

definition ex_env :: env where
  "ex_env =
     \<lparr>isUUID = (\<lambda>s. length s = 36),
      randomUUID = (\<lambda>n. ''msg-'' @ replicate (Suc n) CHR ''x''),
      date_now = (\<lambda>n. 1000 + int n),
      current_timestamp = (\<lambda>n. 2000 + int n),
      query_rejects = (\<lambda>n. False),
      mock_backend = (\<lambda>u c. Inr \<lparr>mock_content = ''Hi there'', mock_attachments = None\<rparr>),
      io = True\<rparr>"

definition ex_row :: row where
  "ex_row =
     \<lparr>row_id = ''7d9f0c1a-2b3c-4d5e-8f60-718293a4b5c6'',
      user_id = ''a1a1a1a1-0000-4000-8000-000000000001'',
      row_title = ''Demo'', row_messages = Some [], created_at = 500, updated_at = 500\<rparr>"

definition ex_world :: world where
  "ex_world =
     \<lparr>rows = [''7d9f0c1a-2b3c-4d5e-8f60-718293a4b5c6'' \<mapsto> ex_row],
      queries = 0, uuids = 0, dates = 0, emitted = []\<rparr>"

definition ex_request :: request where
  "ex_request =
     \<lparr>param_id = ''7d9f0c1a-2b3c-4d5e-8f60-718293a4b5c6'',
      req_user_id = ''a1a1a1a1-0000-4000-8000-000000000001'',
      body_message = ''Hello'', body_attachments = None, body_conversationId = None,
      body_title = Some ''Renamed''\<rparr>"

definition ex_other_user :: string where
  "ex_other_user = ''b2b2b2b2-0000-4000-8000-000000000002''"

text \<open>A text of 10001 characters of which all but the first are spaces.\<close>

definition ex_padded_text :: string where
  "ex_padded_text = CHR ''a'' # replicate 10000 CHR '' ''"

definition ex_message :: message where
  "ex_message =
     \<lparr>msg_id = ''msg-xx'', role = Assistant, content = ''Hi there'', timestamp = 1001,
      attachments = []\<rparr>"

definition ex_conversation :: conversation where
  "ex_conversation =
     \<lparr>conv_id = ''7d9f0c1a-2b3c-4d5e-8f60-718293a4b5c6'',
      userId = ''a1a1a1a1-0000-4000-8000-000000000001'', title = ''Demo'', messages = [],
      createdAt = 500, updatedAt = 500\<rparr>"

text \<open>A client state whose list holds a newer conversation before the open one.\<close>

definition ex_state :: chat_state where
  "ex_state =
     \<lparr>conversations =
        [\<lparr>sum_id = ''0c0c0c0c-1111-4222-8333-444444444444'', sum_title = ''Newest'',
          messageCount = 0, lastMessage = None, sum_createdAt = 900, sum_updatedAt = 900\<rparr>,
         getSummary ex_conversation],
      currentConversation = Some ex_conversation, isLoading = False, isTyping = False,
      error = None\<rparr>"

text \<open>
  Variants of the environment: the backend throws; no socket server is registered; the
  database rejects the third query it receives (for a request arriving in the example
  world, the update that stores the generated reply) and accepts the others.
\<close>

definition ex_env_backend_down :: env where
  "ex_env_backend_down = ex_env\<lparr>mock_backend := (\<lambda>u c. Inl ''timeout'')\<rparr>"

definition ex_env_no_io :: env where
  "ex_env_no_io = ex_env\<lparr>io := False\<rparr>"

definition ex_env_reply_rejected :: env where
  "ex_env_reply_rejected = ex_env\<lparr>query_rejects := (\<lambda>n. n = 2)\<rparr>"

text \<open>
  The conversations the server returns for the example request in the example world: after
  the message route, and after the rename route.
\<close>

definition ex_answered :: conversation where
  "ex_answered =
     Conversation_new (stored ex_env 2 ex_row
       [made ex_env 0 0 User ''Hello'' [], made ex_env 1 1 Assistant ''Hi there'' []])"

definition ex_renamed :: conversation where
  "ex_renamed =
     Conversation_new (ex_row\<lparr>row_title := ''Renamed'', updated_at := current_timestamp ex_env 1\<rparr>)"

text \<open>A response in the shape the client tests for, carrying a conversation.\<close>

definition ex_wrapped :: "conversation \<Rightarrow> string + api_response" where
  "ex_wrapped c = Inr \<lparr>api_success = True, api_data = Some c, api_error = None\<rparr>"

text \<open>
  The example conversation holding one message stamped later than the server clock reads
  when the example request arrives.
\<close>

definition ex_ahead :: message where
  "ex_ahead =
     \<lparr>msg_id = ''msg-a'', role = Assistant, content = ''Welcome'', timestamp = 5000,
      attachments = []\<rparr>"

definition ex_world_ahead :: world where
  "ex_world_ahead =
     \<lparr>rows = [''7d9f0c1a-2b3c-4d5e-8f60-718293a4b5c6'' \<mapsto>
                ex_row\<lparr>row_messages := Some [ex_ahead]\<rparr>],
      queries = 0, uuids = 0, dates = 0, emitted = []\<rparr>"

text \<open>A server clock that runs backwards.\<close>

definition ex_env_clock_back :: env where
  "ex_env_clock_back = ex_env\<lparr>date_now := (\<lambda>n. 1000 - int n)\<rparr>"

text \<open>
  The same conversation with one earlier exchange stored, and what the message route
  returns for the example request then.
\<close>

definition ex_history :: "message list" where
  "ex_history =
     [\<lparr>msg_id = ''msg-a'', role = User, content = ''Good morning'', timestamp = 700,
       attachments = []\<rparr>,
      \<lparr>msg_id = ''msg-b'', role = Assistant, content = ''Good morning to you'',
       timestamp = 702, attachments = []\<rparr>]"

definition ex_world_history :: world where
  "ex_world_history =
     \<lparr>rows = [''7d9f0c1a-2b3c-4d5e-8f60-718293a4b5c6'' \<mapsto>
                ex_row\<lparr>row_messages := Some ex_history\<rparr>],
      queries = 0, uuids = 0, dates = 0, emitted = []\<rparr>"

definition ex_continued :: conversation where
  "ex_continued =
     Conversation_new (stored ex_env 2 (ex_row\<lparr>row_messages := Some ex_history\<rparr>)
       (ex_history @
        [made ex_env 0 0 User ''Hello'' [], made ex_env 1 1 Assistant ''Hi there'' []]))"

section \<open>The store operations, by whether the database accepts the query\<close>

lemmas ex_defs = ex_env_def ex_row_def ex_world_def ex_request_def

lemmas ex_client_defs = ex_message_def ex_conversation_def ex_state_def getSummary_def

lemmas run_defs =
  post_message_def validateUUIDParam_def validateChatMessage_def
  send_message_handler_def findById_def pgPool_query_def Conversation_new_def addMessage_def
  Conversation_of_rows_def generate_and_append_def generateAIResponse_def add_error_message_def
  emit_message_received_def Let_def message_sent_def send_failed_def not_found_def

lemma conv_id_new [simp]: "conv_id (Conversation_new r) = row_id r"
  by (simp add: Conversation_new_def)

lemma messages_new_stored [simp]: "messages (Conversation_new (stored e k r ms)) = ms"
  by (simp add: Conversation_new_def stored_def)

lemma updatedAt_new_stored [simp]:
  "updatedAt (Conversation_new (stored e k r ms)) = current_timestamp e k"
  by (simp add: Conversation_new_def stored_def)

lemma row_id_stored [simp]: "row_id (stored e k r ms) = row_id r"
  by (simp add: stored_def)

lemma findById_any:
  assumes "\<not> query_rejects e (queries w)" and "rows w i = Some r"
  shows "findById e i (Some u) w =
           (Inr (if u = [] \<or> user_id r = u then Some (Conversation_new r) else None),
            w\<lparr>queries := Suc (queries w)\<rparr>)"
  using assms by (simp add: findById_def pgPool_query_def Let_def)

lemma findById_rejected:
  assumes "query_rejects e (queries w)"
  shows "findById e i u w = (Inl StoreError, w\<lparr>queries := Suc (queries w)\<rparr>)"
  using assms by (simp add: findById_def pgPool_query_def Let_def)

lemma addMessage_stored:
  assumes "\<not> query_rejects e (queries w)" and "rows w (conv_id c) = Some r"
  shows "addMessage e c m w =
           (Inr (Conversation_new (stored e (queries w) r
              (messages c @
                 [made e (uuids w) (dates w) (nm_role m) (nm_content m) (nm_attachments m)]))),
            c\<lparr>messages := messages c @
                 [made e (uuids w) (dates w) (nm_role m) (nm_content m) (nm_attachments m)]\<rparr>,
            w\<lparr>uuids := Suc (uuids w), dates := Suc (dates w), queries := Suc (queries w),
              rows := (rows w)(conv_id c \<mapsto> stored e (queries w) r
                (messages c @
                   [made e (uuids w) (dates w) (nm_role m) (nm_content m)
                      (nm_attachments m)]))\<rparr>)"
  using assms
  by (simp add: addMessage_def pgPool_query_def Let_def Conversation_of_rows_def stored_def
      made_def)

lemma addMessage_rejected:
  assumes "query_rejects e (queries w)"
  shows "addMessage e c m w =
           (Inl StoreError,
            c\<lparr>messages := messages c @
                 [made e (uuids w) (dates w) (nm_role m) (nm_content m) (nm_attachments m)]\<rparr>,
            w\<lparr>uuids := Suc (uuids w), dates := Suc (dates w), queries := Suc (queries w)\<rparr>)"
  using assms by (simp add: addMessage_def pgPool_query_def Let_def made_def)

lemma add_error_message_stored:
  assumes "\<not> query_rejects e (queries w)" and "rows w (conv_id c) = Some r"
  shows "add_error_message e c w =
           (message_sent (Conversation_new (stored e (queries w) r
              (messages c @ [made e (uuids w) (dates w) Assistant fallback_text []]))),
            w\<lparr>uuids := Suc (uuids w), dates := Suc (dates w), queries := Suc (queries w),
              rows := (rows w)(conv_id c \<mapsto> stored e (queries w) r
                 (messages c @ [made e (uuids w) (dates w) Assistant fallback_text []]))\<rparr>)"
  using assms by (simp add: add_error_message_def addMessage_stored)

lemma add_error_message_rejected:
  assumes "query_rejects e (queries w)"
  shows "add_error_message e c w =
           (send_failed,
            w\<lparr>uuids := Suc (uuids w), dates := Suc (dates w), queries := Suc (queries w)\<rparr>)"
  using assms by (simp add: add_error_message_def addMessage_rejected)

section \<open>The message route, stage by stage\<close>

lemma post_message_valid:
  "valid_submission e req \<Longrightarrow>
   post_message e req w =
     send_message_handler e (req\<lparr>body_message := trim (body_message req)\<rparr>) w"
  by (auto simp: valid_submission_def post_message_def validateUUIDParam_def
      validateChatMessage_def Let_def split: option.splits)

lemma post_message_invalid:
  "\<not> valid_submission e req \<Longrightarrow>
   (\<exists>errs. fst (post_message e req w) = Response 400 (ValidationFailed errs)) \<and>
   snd (post_message e req w) = w"
  by (auto simp: valid_submission_def post_message_def validateUUIDParam_def
      validateChatMessage_def Let_def split: option.splits)

text \<open>
  With a valid request by the owner and a database that accepts the lookup and the first
  update, the route comes to the inner \<^verbatim>\<open>try\<close> block with the user message stored.
\<close>

lemma post_message_reaches_generator:
  assumes v: "valid_submission e req"
    and row: "rows w (param_id req) = Some r" and key: "row_id r = param_id req"
    and owner: "req_user_id req = [] \<or> user_id r = req_user_id req"
    and q0: "\<not> query_rejects e (queries w)" and q1: "\<not> query_rejects e (Suc (queries w))"
  shows "post_message e req w =
           generate_and_append e (req_user_id req)
             (Conversation_new (stored e (Suc (queries w)) r
                (messages (Conversation_new r) @ [submitted e req w])))
             (w\<lparr>uuids := Suc (uuids w), dates := Suc (dates w),
                queries := Suc (Suc (queries w)),
                rows := (rows w)(param_id req \<mapsto> stored e (Suc (queries w)) r
                  (messages (Conversation_new r) @ [submitted e req w]))\<rparr>)"
  using row key owner q0 q1 unfolding post_message_valid [OF v]
  by (auto simp: send_message_handler_def Let_def findById_any addMessage_stored submitted_def)

text \<open>Conversely, a 200 answer means the route came that far.\<close>

lemma post_message_sent_reached:
  assumes sent: "fst (post_message e req w) = Response 200 (ConversationBody t c)"
    and row: "rows w (param_id req) = Some r"
  shows "valid_submission e req \<and> (req_user_id req = [] \<or> user_id r = req_user_id req) \<and>
         \<not> query_rejects e (queries w) \<and> \<not> query_rejects e (Suc (queries w))"
proof -
  have v: "valid_submission e req"
    using sent post_message_invalid [of e req w] by (cases "valid_submission e req") auto
  have q0: "\<not> query_rejects e (queries w)"
    using sent unfolding post_message_valid [OF v]
    by (auto simp: send_message_handler_def Let_def findById_rejected send_failed_def)
  have owner: "req_user_id req = [] \<or> user_id r = req_user_id req"
    using sent row q0 unfolding post_message_valid [OF v]
    by (auto simp: send_message_handler_def Let_def findById_any not_found_def split: if_splits)
  have q1: "\<not> query_rejects e (Suc (queries w))"
    using sent row q0 owner unfolding post_message_valid [OF v]
    by (auto simp: send_message_handler_def Let_def findById_any addMessage_rejected
        send_failed_def split: if_splits)
  from v q0 owner q1 show ?thesis by simp
qed

lemma generate_and_append_fallback:
  assumes gen: "generateAIResponse e (messages c) uid = Inl err"
    and q: "\<not> query_rejects e (queries w)" and row: "rows w (conv_id c) = Some r"
  shows "generate_and_append e uid c w =
           (message_sent (Conversation_new (stored e (queries w) r
              (messages c @ [made e (uuids w) (dates w) Assistant fallback_text []]))),
            w\<lparr>uuids := Suc (uuids w), dates := Suc (dates w), queries := Suc (queries w),
              rows := (rows w)(conv_id c \<mapsto> stored e (queries w) r
                 (messages c @ [made e (uuids w) (dates w) Assistant fallback_text []]))\<rparr>)"
  using assms by (simp add: generate_and_append_def add_error_message_stored)

lemma generate_and_append_reply:
  assumes gen: "generateAIResponse e (messages c) uid = Inr ai"
    and q: "\<not> query_rejects e (queries w)" and row: "rows w (conv_id c) = Some r"
  shows "generate_and_append e uid c w =
           (message_sent (Conversation_new (stored e (queries w) r
              (messages c @
                 [made e (uuids w) (dates w) Assistant (ai_content ai) (ai_attachments ai)]))),
            (if io e
             then emit_message_received uid (Conversation_new (stored e (queries w) r
                    (messages c @
                       [made e (uuids w) (dates w) Assistant (ai_content ai)
                          (ai_attachments ai)])))
             else (\<lambda>x. x))
              (w\<lparr>uuids := Suc (uuids w), dates := Suc (dates w), queries := Suc (queries w),
                 rows := (rows w)(conv_id c \<mapsto> stored e (queries w) r
                   (messages c @
                      [made e (uuids w) (dates w) Assistant (ai_content ai)
                         (ai_attachments ai)]))\<rparr>))"
  using assms by (simp add: generate_and_append_def addMessage_stored)

text \<open>
  The messages of a conversation the inner \<^verbatim>\<open>try\<close>/\<^verbatim>\<open>catch\<close> answers with: one
  assistant message, or two when the reply's update was rejected and the fallback's was
  not.
\<close>

lemma generate_and_append_sent:
  assumes sent: "fst (generate_and_append e uid c w) = Response 200 (ConversationBody t c')"
    and row: "rows w (conv_id c) = Some r"
  shows "\<exists>txt atts.
           messages c' = messages c @ [made e (uuids w) (dates w) Assistant txt atts] \<or>
           query_rejects e (queries w) \<and>
           messages c' = messages c @ [made e (uuids w) (dates w) Assistant txt atts,
              made e (Suc (uuids w)) (Suc (dates w)) Assistant fallback_text []]"
proof (cases "generateAIResponse e (messages c) uid")
  case (Inl err)
  show ?thesis
  proof (cases "query_rejects e (queries w)")
    case True
    with Inl sent show ?thesis
      by (simp add: generate_and_append_def add_error_message_rejected send_failed_def)
  next
    case False
    with Inl sent row show ?thesis
      by (fastforce simp: generate_and_append_fallback message_sent_def)
  qed
next
  case (Inr ai)
  show ?thesis
  proof (cases "query_rejects e (queries w)")
    case False
    with Inr sent row show ?thesis
      by (fastforce simp: generate_and_append_reply message_sent_def)
  next
    case True
    note rej = this
    show ?thesis
    proof (cases "query_rejects e (Suc (queries w))")
      case True
      with rej Inr sent show ?thesis
        by (simp add: generate_and_append_def addMessage_rejected add_error_message_rejected
            send_failed_def)
    next
      case False
      with rej Inr sent row show ?thesis
        by (fastforce simp: generate_and_append_def addMessage_rejected
            add_error_message_stored message_sent_def)
    qed
  qed
qed

lemma post_message_sent_messages:
  assumes sent: "fst (post_message e req w) = Response 200 (ConversationBody t c)"
    and row: "rows w (param_id req) = Some r" and key: "row_id r = param_id req"
  shows "\<exists>txt atts.
           messages c = messages (Conversation_new r) @
             [submitted e req w, replied e w 1 txt atts] \<or>
           query_rejects e (Suc (Suc (queries w))) \<and>
           messages c = messages (Conversation_new r) @
             [submitted e req w, replied e w 1 txt atts, replied e w 2 fallback_text []]"
proof -
  let ?r1 = "stored e (Suc (queries w)) r (messages (Conversation_new r) @ [submitted e req w])"
  note reached = post_message_sent_reached [OF sent row]
  have eq: "post_message e req w =
           generate_and_append e (req_user_id req) (Conversation_new ?r1)
             (w\<lparr>uuids := Suc (uuids w), dates := Suc (dates w),
                queries := Suc (Suc (queries w)),
                rows := (rows w)(param_id req \<mapsto> ?r1)\<rparr>)"
    using reached row key by (intro post_message_reaches_generator) simp_all
  from generate_and_append_sent [OF sent [unfolded eq], of ?r1] key
  show ?thesis by (simp add: replied_def numeral_2_eq_2)
qed

text \<open>
  So a 200 answer carries exactly two new messages unless the database rejected the update
  that stores the generated reply.
\<close>

lemma post_message_two_messages:
  assumes sent: "fst (post_message e req w) = Response 200 (ConversationBody t c)"
    and row: "rows w (param_id req) = Some r" and key: "row_id r = param_id req"
    and q2: "\<not> query_rejects e (Suc (Suc (queries w)))"
  shows "length (messages c) = length (messages (Conversation_new r)) + 2"
  using post_message_sent_messages [OF sent row key] q2 by auto

lemma role_submitted [simp]: "role (submitted e req w) = User"
  by (simp add: submitted_def made_def)

lemma timestamp_submitted [simp]: "timestamp (submitted e req w) = date_now e (dates w)"
  by (simp add: submitted_def made_def)

lemma role_replied [simp]: "role (replied e w k txt atts) = Assistant"
  by (simp add: replied_def made_def)

lemma timestamp_replied [simp]: "timestamp (replied e w k txt atts) = date_now e (dates w + k)"
  by (simp add: replied_def made_def)

lemma emit_message_received_frame [simp]:
  "rows (emit_message_received uid c w) = rows w"
  "queries (emit_message_received uid c w) = queries w"
  by (simp_all add: emit_message_received_def)

lemma updated_at_stored [simp]: "updated_at (stored e k r ms) = current_timestamp e k"
  by (simp add: stored_def)

lemma row_messages_stored [simp]: "row_messages (stored e k r ms) = Some ms"
  by (simp add: stored_def)

lemma generate_and_append_sent_row:
  assumes sent: "fst (generate_and_append e uid c w) = Response 200 (ConversationBody t c')"
    and row: "rows w (conv_id c) = Some r"
  shows "\<exists>r'. rows (snd (generate_and_append e uid c w)) (conv_id c) = Some r' \<and>
           c' = Conversation_new r' \<and> row_messages r' = Some (messages c') \<and>
           updated_at r' = current_timestamp e (queries (snd (generate_and_append e uid c w)) - 1)"
proof (cases "generateAIResponse e (messages c) uid")
  case (Inl err)
  show ?thesis
  proof (cases "query_rejects e (queries w)")
    case True
    with Inl sent show ?thesis
      by (simp add: generate_and_append_def add_error_message_rejected send_failed_def)
  next
    case False
    with Inl sent row show ?thesis
      by (auto simp: generate_and_append_fallback message_sent_def)
  qed
next
  case (Inr ai)
  show ?thesis
  proof (cases "query_rejects e (queries w)")
    case False
    with Inr sent row show ?thesis
      by (auto simp: generate_and_append_reply message_sent_def)
  next
    case True
    note rej = this
    show ?thesis
    proof (cases "query_rejects e (Suc (queries w))")
      case True
      with rej Inr sent show ?thesis
        by (simp add: generate_and_append_def addMessage_rejected add_error_message_rejected
            send_failed_def)
    next
      case False
      with rej Inr sent row show ?thesis
        by (auto simp: generate_and_append_def addMessage_rejected
            add_error_message_stored message_sent_def)
    qed
  qed
qed

lemma post_message_sent_row:
  assumes sent: "fst (post_message e req w) = Response 200 (ConversationBody t c)"
    and row: "rows w (param_id req) = Some r" and key: "row_id r = param_id req"
  shows "\<exists>r'. rows (snd (post_message e req w)) (param_id req) = Some r' \<and>
           c = Conversation_new r' \<and> row_messages r' = Some (messages c) \<and>
           updated_at r' = current_timestamp e (queries (snd (post_message e req w)) - 1)"
proof -
  let ?r1 = "stored e (Suc (queries w)) r (messages (Conversation_new r) @ [submitted e req w])"
  note reached = post_message_sent_reached [OF sent row]
  have eq: "post_message e req w =
           generate_and_append e (req_user_id req) (Conversation_new ?r1)
             (w\<lparr>uuids := Suc (uuids w), dates := Suc (dates w),
                queries := Suc (Suc (queries w)),
                rows := (rows w)(param_id req \<mapsto> ?r1)\<rparr>)"
    using reached row key by (intro post_message_reaches_generator) simp_all
  from generate_and_append_sent_row [OF sent [unfolded eq], of ?r1] key
  show ?thesis unfolding eq by simp
qed

lemma put_conversation_sent:
  assumes sent: "fst (put_conversation e req w) = Response 200 (ConversationBody t c)"
    and row: "rows w (param_id req) = Some r" and key: "row_id r = param_id req"
  shows "\<exists>r'. rows (snd (put_conversation e req w)) (param_id req) = Some r' \<and>
           c = Conversation_new r' \<and>
           updated_at r' = current_timestamp e (queries (snd (put_conversation e req w)) - 1) \<and>
           body_title req = Some (row_title r')"
  using assms
  by (auto simp: put_conversation_def validateUUIDParam_def findById_def updateTitle_def
      pgPool_query_def Conversation_of_rows_def Let_def not_found_def
      split: if_splits option.splits)

section \<open>The client's list of summaries\<close>

lemma map_sum_id_replace:
  "map sum_id (map (\<lambda>x. if sum_id x = conv_id c then getSummary c else x) xs) = map sum_id xs"
  by (induction xs) (simp_all add: getSummary_def)

lemma sum_id_getSummary [simp]: "sum_id (getSummary c) = conv_id c"
  by (simp add: getSummary_def)

lemma conversations_sendMessage:
  assumes "api_success resp" and "api_data resp = Some c"
  shows "sendMessage s (Inr resp) =
           (None,
            s\<lparr>currentConversation := Some c, isTyping := False,
              conversations :=
                map (\<lambda>x. if sum_id x = conv_id c then getSummary c else x) (conversations s)\<rparr>)"
  using assms by (simp add: sendMessage_def)

lemma conversations_updateConversationTitle:
  assumes "api_success resp" and "api_data resp = Some c"
  shows "conversations (snd (updateConversationTitle s i (Inr resp))) =
           map (\<lambda>x. if sum_id x = conv_id c then getSummary c else x) (conversations s) \<and>
         fst (updateConversationTitle s i (Inr resp)) = None"
  using assms by (simp add: updateConversationTitle_def Let_def split: option.splits)

text \<open>
  The success bodies of \<^verbatim>\<open>src/routes/chat.js\<close> do not pass the client's test: the
  client records an error and leaves list and open conversation as they were.
\<close>

lemma apiService_await_ConversationBody:
  "apiService_await (Response 200 (ConversationBody msg c)) =
     Inr \<lparr>api_success = False, api_data = None, api_error = None\<rparr>"
  by (simp add: apiService_await_def as_api_response_def)

lemma sendMessage_ConversationBody:
  "sendMessage s (apiService_await (Response 200 (ConversationBody msg c))) =
     (Some ''Failed to send message'',
      s\<lparr>error := Some ''Failed to send message'', isLoading := False, isTyping := False\<rparr>)"
  by (simp add: apiService_await_ConversationBody sendMessage_def error_or_def)

lemma updateConversationTitle_ConversationBody:
  "updateConversationTitle s i (apiService_await (Response 200 (ConversationBody msg c))) =
     (Some ''Failed to update conversation'',
      s\<lparr>error := Some ''Failed to update conversation'', isLoading := False,
        isTyping := False\<rparr>)"
  by (simp add: apiService_await_ConversationBody updateConversationTitle_def error_or_def)

section \<open>The example values, evaluated\<close>

lemma trim_padded: "\<not> is_space c \<Longrightarrow> trim (c # replicate n CHR '' '') = [c]"
proof -
  assume c: "\<not> is_space c"
  have sp: "is_space CHR '' ''" by (simp add: is_space_def)
  have "dropWhile is_space (replicate n CHR '' '' @ [c]) = [c]"
    using c sp by (induction n) simp_all
  with c show ?thesis by (simp add: trim_def)
qed

lemma trim_ex_padded_text: "trim ex_padded_text = ''a''"
  unfolding ex_padded_text_def by (rule trim_padded) (simp add: is_space_def)

lemma length_ex_padded_text: "length ex_padded_text = 10001"
  by (simp add: ex_padded_text_def)

lemma ex_valid_submission: "valid_submission ex_env ex_request"
  by (simp add: valid_submission_def ex_defs trim_def is_space_def)

lemma ex_post_message:
  "post_message ex_env ex_request ex_world =
     (message_sent ex_answered,
      \<lparr>rows = [row_id ex_row \<mapsto> stored ex_env 2 ex_row
           [made ex_env 0 0 User ''Hello'' [], made ex_env 1 1 Assistant ''Hi there'' []]],
       queries = 3, uuids = 2, dates = 2,
       emitted = [\<lparr>room = ''user-a1a1a1a1-0000-4000-8000-000000000001'',
                   event = ''message-received'', ev_conversationId = row_id ex_row,
                   ev_message = Some (made ex_env 1 1 Assistant ''Hi there'' [])\<rparr>]\<rparr>)"
  by (simp add: ex_defs run_defs trim_def is_space_def stored_def made_def ex_answered_def
      numeral_3_eq_3 numeral_2_eq_2)

lemma ex_post_message_history:
  "fst (post_message ex_env ex_request ex_world_history) = message_sent ex_continued"
  by (simp add: ex_defs ex_world_history_def ex_continued_def run_defs trim_def is_space_def
      stored_def made_def)

lemma ex_put_conversation:
  "put_conversation ex_env ex_request ex_world =
     (Response 200 (ConversationBody ''Conversation updated successfully'' ex_renamed),
      \<lparr>rows = [row_id ex_row \<mapsto>
           ex_row\<lparr>row_title := ''Renamed'', updated_at := current_timestamp ex_env 1\<rparr>],
       queries = 2, uuids = 0, dates = 0, emitted = []\<rparr>)"
  by (simp add: put_conversation_def updateTitle_def ex_defs run_defs ex_renamed_def
      eval_nat_numeral)

lemma ex_returned_fields:
  "conv_id ex_answered = ''7d9f0c1a-2b3c-4d5e-8f60-718293a4b5c6''"
  "updatedAt ex_answered = 2002"
  "conv_id ex_renamed = ''7d9f0c1a-2b3c-4d5e-8f60-718293a4b5c6''"
  "updatedAt ex_renamed = 2001"
  by (simp_all add: ex_answered_def ex_renamed_def Conversation_new_def stored_def ex_defs)


section \<open>Ownership and validation\<close>

text \<open>
  C9. \<^verbatim>\<open>Conversation.findById\<close> restricts the lookup to an owner only when an owner
  id is passed: called with the owner omitted or null it returns the conversation stored
  under the id whoever owns it, and the only calls that do not return it are those with a
  non-null (and non-empty) owner id different from the row's. The database is assumed to
  answer the query.
\<close>

theorem C9_findById_owner_clause:
  assumes "rows w i = Some r" and "\<not> query_rejects e (queries w)"
  shows "fst (findById e i None w) = Inr (Some (Conversation_new r)) \<and>
         fst (findById e i owner w) =
           Inr (if \<exists>u. owner = Some u \<and> u \<noteq> [] \<and> u \<noteq> user_id r then None
                else Some (Conversation_new r))"
  using assms
  by (auto simp: findById_def pgPool_query_def Let_def split: option.splits)

theorem C9_findById_owner_clause_witness:
  "rows ex_world (row_id ex_row) = Some ex_row \<and>
   \<not> query_rejects ex_env (queries ex_world) \<and>
   fst (findById ex_env (row_id ex_row) None ex_world) = Inr (Some (Conversation_new ex_row)) \<and>
   fst (findById ex_env (row_id ex_row) (Some ex_other_user) ex_world) = Inr None"
proof -
  have h1: "rows ex_world (row_id ex_row) = Some ex_row"
    by (simp add: ex_defs ex_other_user_def)
  have h2: "\<not> query_rejects ex_env (queries ex_world)"
    by (simp add: ex_defs ex_other_user_def)
  have h3: "\<exists>u. Some ex_other_user = Some u \<and> u \<noteq> [] \<and> u \<noteq> user_id ex_row"
    by (simp add: ex_defs ex_other_user_def)
  from h1 h2 h3 C9_findById_owner_clause [OF h1 h2, of "Some ex_other_user"]
  show ?thesis by simp
qed

text \<open>
  C4. When the conversation stored under the request's id belongs to someone other than
  the authenticated caller, \<^verbatim>\<open>POST /conversations/:id/messages\<close> never answers with a
  conversation, whatever the request and the database do, and changes neither the table
  nor the socket emissions; a request that passes validation, with the lookup answered,
  gets 404 "Conversation not found". The caller's id is a non-empty string.
\<close>

theorem C4_other_owner_not_found:
  assumes row: "rows w (param_id req) = Some r"
    and other: "user_id r \<noteq> req_user_id req" and caller: "req_user_id req \<noteq> []"
  shows "(\<forall>s t c. fst (post_message e req w) \<noteq> Response s (ConversationBody t c)) \<and>
         rows (snd (post_message e req w)) = rows w \<and>
         emitted (snd (post_message e req w)) = emitted w \<and>
         (valid_submission e req \<and> \<not> query_rejects e (queries w) \<longrightarrow>
            fst (post_message e req w) = not_found)"
proof (cases "valid_submission e req")
  case False
  from post_message_invalid [OF False, of w] show ?thesis
    using False by auto
next
  case True
  show ?thesis
  proof (cases "query_rejects e (queries w)")
    case rej: True
    then show ?thesis
      unfolding post_message_valid [OF True]
      by (simp add: send_message_handler_def Let_def findById_rejected send_failed_def)
  next
    case False
    with row other caller show ?thesis
      unfolding post_message_valid [OF True]
      by (simp add: send_message_handler_def Let_def findById_any not_found_def)
  qed
qed

theorem C4_other_owner_not_found_witness:
  "rows ex_world (param_id (ex_request\<lparr>req_user_id := ex_other_user\<rparr>)) = Some ex_row \<and>
   user_id ex_row \<noteq> req_user_id (ex_request\<lparr>req_user_id := ex_other_user\<rparr>) \<and>
   req_user_id (ex_request\<lparr>req_user_id := ex_other_user\<rparr>) \<noteq> [] \<and>
   valid_submission ex_env (ex_request\<lparr>req_user_id := ex_other_user\<rparr>) \<and>
   \<not> query_rejects ex_env (queries ex_world) \<and>
   fst (post_message ex_env (ex_request\<lparr>req_user_id := ex_other_user\<rparr>) ex_world) =
     not_found"
proof -
  have h1: "rows ex_world (param_id (ex_request\<lparr>req_user_id := ex_other_user\<rparr>)) = Some ex_row"
    by (simp add: ex_defs ex_other_user_def)
  have h2: "user_id ex_row \<noteq> req_user_id (ex_request\<lparr>req_user_id := ex_other_user\<rparr>)"
    by (simp add: ex_defs ex_other_user_def)
  have h3: "req_user_id (ex_request\<lparr>req_user_id := ex_other_user\<rparr>) \<noteq> []"
    by (simp add: ex_defs ex_other_user_def)
  have h4: "valid_submission ex_env (ex_request\<lparr>req_user_id := ex_other_user\<rparr>)"
    by (simp add: valid_submission_def ex_defs ex_other_user_def trim_def is_space_def)
  have h5: "\<not> query_rejects ex_env (queries ex_world)"
    by (simp add: ex_defs ex_other_user_def)
  from h1 h2 h3 h4 h5 C4_other_owner_not_found [OF h1 h2 h3, of ex_env]
  show ?thesis by blast
qed

text \<open>
  C6, as amended. A request whose text is, after trimming, empty or longer than 10000
  characters is answered 400 "Validation failed" by the middleware, before the handler
  runs: no query is sent and the world (table, counters, emissions) is unchanged. The
  length is measured on the trimmed text.
\<close>

theorem C6_trimmed_text_rejected:
  assumes "trim (body_message req) = [] \<or> length (trim (body_message req)) > 10000"
  shows "(\<exists>errs. fst (post_message e req w) = Response 400 (ValidationFailed errs)) \<and>
         snd (post_message e req w) = w"
proof -
  from assms have "\<not> valid_submission e req"
    by (auto simp: valid_submission_def)
  then show ?thesis by (rule post_message_invalid)
qed

theorem C6_trimmed_text_rejected_witness:
  "trim (body_message (ex_request\<lparr>body_message := ''   ''\<rparr>)) = [] \<and>
   (\<exists>errs. fst (post_message ex_env (ex_request\<lparr>body_message := ''   ''\<rparr>) ex_world) =
      Response 400 (ValidationFailed errs)) \<and>
   snd (post_message ex_env (ex_request\<lparr>body_message := ''   ''\<rparr>) ex_world) = ex_world"
proof -
  have h: "trim (body_message (ex_request\<lparr>body_message := ''   ''\<rparr>)) = []"
    by (simp add: trim_def is_space_def)
  from h C6_trimmed_text_rejected [OF disjI1 [OF h], of ex_env ex_world]
  show ?thesis by simp
qed

text \<open>
  C6 as stated fails for a text longer than 10000 characters whose trimmed form is not:
  the 10001-character text \<open>ex_padded_text\<close> is accepted, stored as \<open>''a''\<close> and answered.
\<close>

theorem C6_counterexample:
  "length (body_message (ex_request\<lparr>body_message := ex_padded_text\<rparr>)) > 10000 \<and>
   fst (post_message ex_env (ex_request\<lparr>body_message := ex_padded_text\<rparr>) ex_world) =
     message_sent
       (Conversation_new (stored ex_env 2 ex_row
          [made ex_env 0 0 User ''a'' [], made ex_env 1 1 Assistant ''Hi there'' []])) \<and>
   rows (snd (post_message ex_env (ex_request\<lparr>body_message := ex_padded_text\<rparr>) ex_world))
       (row_id ex_row) =
     Some (stored ex_env 2 ex_row
          [made ex_env 0 0 User ''a'' [], made ex_env 1 1 Assistant ''Hi there'' []])"
  by (simp add: length_ex_padded_text trim_ex_padded_text ex_defs run_defs stored_def made_def)

section \<open>The generator's failure\<close>

text \<open>
  C5. For a valid submission by the owner in which the response generator throws, and
  with the database accepting the three queries of the call, the route answers 200 with
  the conversation extended by the user message and one assistant message whose content
  is the fixed apology and whose attachment list is empty.
\<close>

theorem C5_generator_failure_fallback:
  assumes v: "valid_submission e req"
    and row: "rows w (param_id req) = Some r" and key: "row_id r = param_id req"
    and owner: "user_id r = req_user_id req"
    and q0: "\<not> query_rejects e (queries w)"
    and q1: "\<not> query_rejects e (Suc (queries w))"
    and q2: "\<not> query_rejects e (Suc (Suc (queries w)))"
    and gen: "generateAIResponse e (messages (Conversation_new r) @ [submitted e req w])
                (req_user_id req) = Inl err"
  shows "\<exists>c a. fst (post_message e req w) = message_sent c \<and>
           messages c = messages (Conversation_new r) @ [submitted e req w, a] \<and>
           role a = Assistant \<and> content a = fallback_text \<and> attachments a = []"
proof -
  let ?a = "made e (Suc (uuids w)) (Suc (dates w)) Assistant fallback_text []"
  let ?r1 = "stored e (Suc (queries w)) r (messages (Conversation_new r) @ [submitted e req w])"
  let ?c = "Conversation_new (stored e (Suc (Suc (queries w))) ?r1
              (messages (Conversation_new r) @ [submitted e req w, ?a]))"
  have eq: "post_message e req w =
           generate_and_append e (req_user_id req) (Conversation_new ?r1)
             (w\<lparr>uuids := Suc (uuids w), dates := Suc (dates w),
                queries := Suc (Suc (queries w)),
                rows := (rows w)(param_id req \<mapsto> ?r1)\<rparr>)"
    using v row key owner q0 q1 by (intro post_message_reaches_generator) simp_all
  have sent: "fst (post_message e req w) = message_sent ?c"
    unfolding eq using gen q2 key
    by (subst generate_and_append_fallback [where r = ?r1]) simp_all
  have "messages ?c = messages (Conversation_new r) @ [submitted e req w, ?a]"
    by simp
  moreover have "role ?a = Assistant \<and> content ?a = fallback_text \<and> attachments ?a = []"
    by (simp add: made_def)
  ultimately show ?thesis
    using sent by blast
qed

theorem C5_generator_failure_fallback_witness:
  "valid_submission ex_env_backend_down ex_request \<and>
   rows ex_world (param_id ex_request) = Some ex_row \<and>
   row_id ex_row = param_id ex_request \<and>
   user_id ex_row = req_user_id ex_request \<and>
   \<not> query_rejects ex_env_backend_down (queries ex_world) \<and>
   \<not> query_rejects ex_env_backend_down (Suc (queries ex_world)) \<and>
   \<not> query_rejects ex_env_backend_down (Suc (Suc (queries ex_world))) \<and>
   generateAIResponse ex_env_backend_down
     (messages (Conversation_new ex_row) @ [submitted ex_env_backend_down ex_request ex_world])
     (req_user_id ex_request) = Inl (GeneratorError ''timeout'') \<and>
   (\<exists>c a. fst (post_message ex_env_backend_down ex_request ex_world) = message_sent c \<and>
      messages c =
        messages (Conversation_new ex_row) @
          [submitted ex_env_backend_down ex_request ex_world, a] \<and>
      role a = Assistant \<and> content a = fallback_text \<and> attachments a = [])"
proof -
  have v: "valid_submission ex_env_backend_down ex_request"
    by (simp add: valid_submission_def ex_defs ex_env_backend_down_def trim_def is_space_def)
  have row: "rows ex_world (param_id ex_request) = Some ex_row"
    by (simp add: ex_defs ex_env_backend_down_def)
  have key: "row_id ex_row = param_id ex_request"
    by (simp add: ex_defs ex_env_backend_down_def)
  have owner: "user_id ex_row = req_user_id ex_request"
    by (simp add: ex_defs ex_env_backend_down_def)
  have q0: "\<not> query_rejects ex_env_backend_down (queries ex_world)"
    by (simp add: ex_defs ex_env_backend_down_def)
  have q1: "\<not> query_rejects ex_env_backend_down (Suc (queries ex_world))"
    by (simp add: ex_defs ex_env_backend_down_def)
  have q2: "\<not> query_rejects ex_env_backend_down (Suc (Suc (queries ex_world)))"
    by (simp add: ex_defs ex_env_backend_down_def)
  have gen: "generateAIResponse ex_env_backend_down
     (messages (Conversation_new ex_row) @ [submitted ex_env_backend_down ex_request ex_world])
     (req_user_id ex_request) = Inl (GeneratorError ''timeout'')"
    by (simp add: generateAIResponse_def submitted_def made_def ex_defs ex_env_backend_down_def)
  from v row key owner q0 q1 q2 gen
    C5_generator_failure_fallback [OF v row key owner q0 q1 q2 gen]
  show ?thesis by blast
qed

section \<open>The client reducer and broadcast messages\<close>

text \<open>
  C10. \<^verbatim>\<open>ADD_MESSAGE\<close> never changes the conversation list, and when no conversation
  is open, or the open one has another id than the payload's, it returns the state as it
  was.
\<close>

theorem C10_add_message_frame:
  "conversations (chatReducer s (ADD_MESSAGE cid m)) = conversations s \<and>
   ((currentConversation s = None \<or>
     (\<exists>c. currentConversation s = Some c \<and> conv_id c \<noteq> cid)) \<longrightarrow>
    chatReducer s (ADD_MESSAGE cid m) = s)"
  by (auto split: option.splits)

theorem C10_add_message_frame_witness:
  "(\<exists>c. currentConversation ex_state = Some c \<and>
        conv_id c \<noteq> ''0c0c0c0c-1111-4222-8333-444444444444'') \<and>
   chatReducer ex_state (ADD_MESSAGE ''0c0c0c0c-1111-4222-8333-444444444444'' ex_message) =
     ex_state \<and>
   currentConversation initialState = None \<and>
   chatReducer initialState
     (ADD_MESSAGE ''0c0c0c0c-1111-4222-8333-444444444444'' ex_message) = initialState"
proof -
  have h: "\<exists>c. currentConversation ex_state = Some c \<and>
             conv_id c \<noteq> ''0c0c0c0c-1111-4222-8333-444444444444''"
    by (simp add: ex_client_defs)
  have n: "currentConversation initialState = None"
    by (simp add: initialState_def)
  from h n
    C10_add_message_frame [of ex_state "''0c0c0c0c-1111-4222-8333-444444444444''" ex_message]
    C10_add_message_frame [of initialState "''0c0c0c0c-1111-4222-8333-444444444444''" ex_message]
  show ?thesis by blast
qed

text \<open>
  C3, as amended. \<^verbatim>\<open>ADD_MESSAGE\<close> for the open conversation appends its message
  unconditionally: applied twice with the same message it leaves the open conversation
  with two more copies of it, so the number of messages carrying that id grows by two.
\<close>

theorem C3_add_message_twice_appends_twice:
  assumes "currentConversation s = Some c" and "conv_id c = cid"
  shows "currentConversation
           (chatReducer (chatReducer s (ADD_MESSAGE cid m)) (ADD_MESSAGE cid m)) =
           Some (c\<lparr>messages := messages c @ [m, m]\<rparr>) \<and>
         length (filter (\<lambda>x. msg_id x = msg_id m) (messages c @ [m, m])) =
           length (filter (\<lambda>x. msg_id x = msg_id m) (messages c)) + 2"
  using assms by simp

theorem C3_add_message_twice_appends_twice_witness:
  "currentConversation ex_state = Some ex_conversation \<and>
   currentConversation
     (chatReducer (chatReducer ex_state (ADD_MESSAGE (conv_id ex_conversation) ex_message))
        (ADD_MESSAGE (conv_id ex_conversation) ex_message)) =
   Some (ex_conversation\<lparr>messages := messages ex_conversation @ [ex_message, ex_message]\<rparr>)"
proof -
  have h: "currentConversation ex_state = Some ex_conversation"
    by (simp add: ex_state_def)
  from h C3_add_message_twice_appends_twice [OF h refl, of ex_message]
  show ?thesis by simp
qed

text \<open>
  C3 as stated fails: after the same message has been added twice to the open, empty
  conversation, that conversation holds it twice, not once.
\<close>

theorem C3_counterexample:
  "currentConversation
     (chatReducer (chatReducer ex_state (ADD_MESSAGE (conv_id ex_conversation) ex_message))
        (ADD_MESSAGE (conv_id ex_conversation) ex_message)) =
     Some (ex_conversation\<lparr>messages := [ex_message, ex_message]\<rparr>) \<and>
   length (filter (\<lambda>x. msg_id x = msg_id ex_message) [ex_message, ex_message]) \<noteq> 1"
  by (simp add: ex_client_defs)

section \<open>What a successful submission appends\<close>

text \<open>
  C1, at the failing input. The example request is a valid submission by the owner of an
  empty conversation and the generator answers, but the database rejects the update that
  stores the generated reply. \<^verbatim>\<open>addMessage\<close> has pushed the reply onto the conversation
  object before that update, \<^verbatim>\<open>catch (aiError)\<close> catches the rejection and appends the
  apology to the same object, and the next update stores both: the 200 answer carries
  three new messages, not two.
\<close>

theorem C1_rejected_reply_update_returns_three_messages:
  "valid_submission ex_env_reply_rejected ex_request \<and>
   rows ex_world (param_id ex_request) = Some ex_row \<and>
   user_id ex_row = req_user_id ex_request \<and>
   messages (Conversation_new ex_row) = [] \<and>
   fst (post_message ex_env_reply_rejected ex_request ex_world) =
     message_sent (Conversation_new (stored ex_env 3 ex_row
        [made ex_env 0 0 User ''Hello'' [], made ex_env 1 1 Assistant ''Hi there'' [],
         made ex_env 2 2 Assistant fallback_text []]))"
  by (simp add: valid_submission_def ex_defs ex_env_reply_rejected_def run_defs trim_def
      is_space_def stored_def made_def eval_nat_numeral)

text \<open>
  C8, as amended. In every invocation that answers with a conversation, the sequence
  persisted under the conversation's id is the one returned: the messages stored before
  the call, then the user message, then the assistant messages the call appended (at
  least one), so the user message comes first. Each timestamp is the reading of the
  server clock taken at the append, the user message's first. Hence, provided that clock
  does not go backwards, the user message's timestamp is at most each assistant
  message's; and provided also that the stored timestamps were non-decreasing and not
  later than the clock at the time of the call, the timestamps of the whole sequence
  are non-decreasing.
\<close>

theorem C8_user_message_precedes_reply:
  assumes sent: "fst (post_message e req w) = Response 200 (ConversationBody t c)"
    and row: "rows w (param_id req) = Some r" and key: "row_id r = param_id req"
  shows "\<exists>rest r'.
           messages c = messages (Conversation_new r) @ submitted e req w # rest \<and>
           rest \<noteq> [] \<and>
           rows (snd (post_message e req w)) (param_id req) = Some r' \<and>
           row_messages r' = Some (messages c) \<and>
           role (submitted e req w) = User \<and>
           (\<forall>m \<in> set rest. role m = Assistant) \<and>
           timestamp (submitted e req w) = date_now e (dates w) \<and>
           (\<forall>k < length rest. timestamp (rest ! k) = date_now e (dates w + Suc k)) \<and>
           (mono (date_now e) \<longrightarrow>
              (\<forall>m \<in> set rest. timestamp (submitted e req w) \<le> timestamp m) \<and>
              (sorted (map timestamp (messages (Conversation_new r))) \<and>
               (\<forall>m \<in> set (messages (Conversation_new r)). timestamp m \<le> date_now e (dates w))
               \<longrightarrow> sorted (map timestamp (messages c))))"
proof -
  from post_message_sent_messages [OF sent row key] obtain ct atts where
    cases: "messages c = messages (Conversation_new r) @
              [submitted e req w, replied e w 1 ct atts] \<or>
            messages c = messages (Conversation_new r) @
              [submitted e req w, replied e w 1 ct atts, replied e w 2 fallback_text []]"
    by blast
  from post_message_sent_row [OF sent row key] obtain r' where
    persisted: "rows (snd (post_message e req w)) (param_id req) = Some r'"
      "row_messages r' = Some (messages c)"
    by blast
  have up: "x \<le> date_now e i \<Longrightarrow> i \<le> j \<Longrightarrow> x \<le> date_now e j"
    if "mono (date_now e)" for x i j
    using that by (blast intro: order_trans monoD)
  have up1: "x \<le> date_now e (dates w) \<Longrightarrow> x \<le> date_now e (Suc (dates w))"
    and up2: "x \<le> date_now e (dates w) \<Longrightarrow> x \<le> date_now e (Suc (Suc (dates w)))"
    and up3: "x \<le> date_now e (Suc (dates w)) \<Longrightarrow> x \<le> date_now e (Suc (Suc (dates w)))"
    if "mono (date_now e)" for x
    using up [OF that] by simp_all
  from cases show ?thesis
  proof
    assume one: "messages c = messages (Conversation_new r) @
              [submitted e req w, replied e w 1 ct atts]"
    show ?thesis
      by (rule exI [of _ "[replied e w 1 ct atts]"], rule exI [of _ r'])
         (use one persisted in \<open>auto simp: sorted_append intro: up1\<close>)
  next
    assume two: "messages c = messages (Conversation_new r) @
              [submitted e req w, replied e w 1 ct atts, replied e w 2 fallback_text []]"
    show ?thesis
      by (rule exI [of _ "[replied e w 1 ct atts, replied e w 2 fallback_text []]"],
          rule exI [of _ r'])
         (use two persisted in
           \<open>auto simp: sorted_append add_2_eq_Suc' less_Suc_eq intro: up1 up2 up3\<close>)
  qed
qed

theorem C8_user_message_precedes_reply_witness:
  "fst (post_message ex_env ex_request ex_world_history) =
     Response 200 (ConversationBody ''Message sent successfully'' ex_continued) \<and>
   rows ex_world_history (param_id ex_request) = Some (ex_row\<lparr>row_messages := Some ex_history\<rparr>) \<and>
   row_id (ex_row\<lparr>row_messages := Some ex_history\<rparr>) = param_id ex_request \<and>
   mono (date_now ex_env) \<and>
   sorted (map timestamp ex_history) \<and>
   list_all (\<lambda>m. timestamp m \<le> date_now ex_env (dates ex_world_history)) ex_history \<and>
   (\<exists>rest r'. messages ex_continued =
        ex_history @ submitted ex_env ex_request ex_world_history # rest \<and>
      rest \<noteq> [] \<and>
      rows (snd (post_message ex_env ex_request ex_world_history)) (param_id ex_request) =
        Some r' \<and>
      row_messages r' = Some (messages ex_continued) \<and>
      list_all (\<lambda>m. role m = Assistant \<and>
          timestamp (submitted ex_env ex_request ex_world_history) \<le> timestamp m) rest) \<and>
   sorted (map timestamp (messages ex_continued))"
proof -
  let ?r = "ex_row\<lparr>row_messages := Some ex_history\<rparr>"
  have sent: "fst (post_message ex_env ex_request ex_world_history) =
     Response 200 (ConversationBody ''Message sent successfully'' ex_continued)"
    by (simp add: ex_post_message_history message_sent_def)
  have row: "rows ex_world_history (param_id ex_request) = Some ?r"
    by (simp add: ex_defs ex_world_history_def)
  have key: "row_id ?r = param_id ex_request"
    by (simp add: ex_defs)
  have clock: "mono (date_now ex_env)"
    by (simp add: ex_defs mono_def)
  have old: "messages (Conversation_new ?r) = ex_history"
    by (simp add: Conversation_new_def)
  have ordered: "sorted (map timestamp ex_history)"
    by (simp add: ex_history_def)
  have earlier: "\<forall>m \<in> set ex_history. timestamp m \<le> date_now ex_env (dates ex_world_history)"
    by (simp add: ex_history_def ex_defs ex_world_history_def)
  from C8_user_message_precedes_reply [OF sent row key] obtain rest r' where
    "messages ex_continued = ex_history @ submitted ex_env ex_request ex_world_history # rest"
    "rest \<noteq> []"
    "rows (snd (post_message ex_env ex_request ex_world_history)) (param_id ex_request) =
       Some r'"
    "row_messages r' = Some (messages ex_continued)"
    "\<forall>m \<in> set rest. role m = Assistant"
    "\<forall>m \<in> set rest. timestamp (submitted ex_env ex_request ex_world_history) \<le> timestamp m"
    "sorted (map timestamp (messages ex_continued))"
    unfolding old using clock ordered earlier by blast
  with sent row key clock ordered earlier show ?thesis
    by (auto simp: list_all_iff)
qed

text \<open>
  C8 as stated fails when the server clock goes backwards between the two appends: the
  example submission is then answered, and stored, with the user message stamped 1000
  and the assistant message after it stamped 999. And with a clock that never goes
  backwards, a conversation holding a message stamped 5000 is answered, and stored, with
  the timestamps 5000, 1000, 1001 in sequence.
\<close>

theorem C8_counterexample:
  "fst (post_message ex_env_clock_back ex_request ex_world) =
     message_sent (Conversation_new (stored ex_env 2 ex_row
       [\<lparr>msg_id = ''msg-x'', role = User, content = ''Hello'', timestamp = 1000,
         attachments = []\<rparr>,
        \<lparr>msg_id = ''msg-xx'', role = Assistant, content = ''Hi there'', timestamp = 999,
         attachments = []\<rparr>])) \<and>
   rows (snd (post_message ex_env_clock_back ex_request ex_world)) (param_id ex_request) =
     Some (stored ex_env 2 ex_row
       [\<lparr>msg_id = ''msg-x'', role = User, content = ''Hello'', timestamp = 1000,
         attachments = []\<rparr>,
        \<lparr>msg_id = ''msg-xx'', role = Assistant, content = ''Hi there'', timestamp = 999,
         attachments = []\<rparr>]) \<and>
   mono (date_now ex_env) \<and>
   fst (post_message ex_env ex_request ex_world_ahead) =
     message_sent (Conversation_new (stored ex_env 2 (ex_row\<lparr>row_messages := Some [ex_ahead]\<rparr>)
       [ex_ahead,
        \<lparr>msg_id = ''msg-x'', role = User, content = ''Hello'', timestamp = 1000,
         attachments = []\<rparr>,
        \<lparr>msg_id = ''msg-xx'', role = Assistant, content = ''Hi there'', timestamp = 1001,
         attachments = []\<rparr>])) \<and>
   timestamp ex_ahead = 5000"
proof -
  have reversed: "fst (post_message ex_env_clock_back ex_request ex_world) =
     message_sent (Conversation_new (stored ex_env 2 ex_row
       [\<lparr>msg_id = ''msg-x'', role = User, content = ''Hello'', timestamp = 1000,
         attachments = []\<rparr>,
        \<lparr>msg_id = ''msg-xx'', role = Assistant, content = ''Hi there'', timestamp = 999,
         attachments = []\<rparr>])) \<and>
     rows (snd (post_message ex_env_clock_back ex_request ex_world)) (param_id ex_request) =
     Some (stored ex_env 2 ex_row
       [\<lparr>msg_id = ''msg-x'', role = User, content = ''Hello'', timestamp = 1000,
         attachments = []\<rparr>,
        \<lparr>msg_id = ''msg-xx'', role = Assistant, content = ''Hi there'', timestamp = 999,
         attachments = []\<rparr>])"
    by (simp add: ex_defs ex_env_clock_back_def run_defs trim_def is_space_def stored_def
        numeral_2_eq_2 numeral_3_eq_3)
  have clock: "mono (date_now ex_env)"
    by (simp add: ex_defs mono_def)
  have ahead: "fst (post_message ex_env ex_request ex_world_ahead) =
     message_sent (Conversation_new (stored ex_env 2 (ex_row\<lparr>row_messages := Some [ex_ahead]\<rparr>)
       [ex_ahead,
        \<lparr>msg_id = ''msg-x'', role = User, content = ''Hello'', timestamp = 1000,
         attachments = []\<rparr>,
        \<lparr>msg_id = ''msg-xx'', role = Assistant, content = ''Hi there'', timestamp = 1001,
         attachments = []\<rparr>]))"
    by (simp add: ex_defs ex_world_ahead_def ex_ahead_def run_defs trim_def is_space_def
        stored_def numeral_2_eq_2 numeral_3_eq_3)
  have "timestamp ex_ahead = 5000"
    by (simp add: ex_ahead_def)
  with reversed clock ahead show ?thesis
    by blast
qed

section \<open>The broadcast\<close>

text \<open>
  C2, as amended. For a valid submission by the conversation's owner, when the generator
  succeeds, the database accepts the three queries of the call (the lookup, the update
  storing the user message and the update storing the generated reply) and a socket
  server is registered, the route emits \<^verbatim>\<open>message-received\<close> to the room of the
  caller, carrying the conversation id and the assistant message just appended; the
  emission is in the world the handler returns with its answer.
\<close>

theorem C2_reply_is_broadcast:
  assumes v: "valid_submission e req"
    and row: "rows w (param_id req) = Some r" and key: "row_id r = param_id req"
    and owner: "user_id r = req_user_id req"
    and q0: "\<not> query_rejects e (queries w)"
    and q1: "\<not> query_rejects e (Suc (queries w))"
    and q2: "\<not> query_rejects e (Suc (Suc (queries w)))"
    and gen: "generateAIResponse e (messages (Conversation_new r) @ [submitted e req w])
                (req_user_id req) = Inr ai"
    and io: "io e"
  shows "\<exists>c. fst (post_message e req w) = message_sent c \<and>
           messages c = messages (Conversation_new r) @
             [submitted e req w, replied e w 1 (ai_content ai) (ai_attachments ai)] \<and>
           emitted (snd (post_message e req w)) =
             emitted w @
               [\<lparr>room = ''user-'' @ req_user_id req, event = ''message-received'',
                 ev_conversationId = param_id req,
                 ev_message = Some (replied e w 1 (ai_content ai) (ai_attachments ai))\<rparr>]"
proof -
  let ?a = "made e (Suc (uuids w)) (Suc (dates w)) Assistant (ai_content ai) (ai_attachments ai)"
  let ?r1 = "stored e (Suc (queries w)) r (messages (Conversation_new r) @ [submitted e req w])"
  let ?c = "Conversation_new (stored e (Suc (Suc (queries w))) ?r1
              (messages (Conversation_new r) @ [submitted e req w, ?a]))"
  have eq: "post_message e req w =
           generate_and_append e (req_user_id req) (Conversation_new ?r1)
             (w\<lparr>uuids := Suc (uuids w), dates := Suc (dates w),
                queries := Suc (Suc (queries w)),
                rows := (rows w)(param_id req \<mapsto> ?r1)\<rparr>)"
    using v row key owner q0 q1 by (intro post_message_reaches_generator) simp_all
  let ?w1 = "w\<lparr>uuids := Suc (uuids w), dates := Suc (dates w),
                queries := Suc (Suc (queries w)),
                rows := (rows w)(param_id req \<mapsto> ?r1)\<rparr>"
  have "generate_and_append e (req_user_id req) (Conversation_new ?r1) ?w1 =
          (message_sent ?c,
           emit_message_received (req_user_id req) ?c
             (?w1\<lparr>uuids := Suc (uuids ?w1), dates := Suc (dates ?w1),
                 queries := Suc (queries ?w1),
                 rows := (rows ?w1)(conv_id (Conversation_new ?r1) \<mapsto>
                   stored e (queries ?w1) ?r1
                     (messages (Conversation_new r) @ [submitted e req w, ?a]))\<rparr>))"
    using gen q2 key io
    by (subst generate_and_append_reply [where r = ?r1 and ai = ai]) simp_all
  then have run: "fst (post_message e req w) = message_sent ?c \<and>
        emitted (snd (post_message e req w)) =
          emitted w @ [\<lparr>room = ''user-'' @ req_user_id req, event = ''message-received'',
                 ev_conversationId = param_id req, ev_message = Some ?a\<rparr>]"
    unfolding eq using key by (simp add: emit_message_received_def)
  have "messages ?c = messages (Conversation_new r) @ [submitted e req w, ?a]"
    by simp
  moreover have "replied e w 1 (ai_content ai) (ai_attachments ai) = ?a"
    by (simp add: replied_def)
  ultimately show ?thesis
    using run by (intro exI [of _ ?c]) simp
qed

theorem C2_reply_is_broadcast_witness:
  "valid_submission ex_env ex_request \<and>
   rows ex_world (param_id ex_request) = Some ex_row \<and>
   row_id ex_row = param_id ex_request \<and>
   user_id ex_row = req_user_id ex_request \<and>
   \<not> query_rejects ex_env (queries ex_world) \<and>
   \<not> query_rejects ex_env (Suc (queries ex_world)) \<and>
   \<not> query_rejects ex_env (Suc (Suc (queries ex_world))) \<and>
   generateAIResponse ex_env
     (messages (Conversation_new ex_row) @ [submitted ex_env ex_request ex_world])
     (req_user_id ex_request) = Inr \<lparr>ai_content = ''Hi there'', ai_attachments = []\<rparr> \<and>
   io ex_env \<and>
   emitted (snd (post_message ex_env ex_request ex_world)) =
     [\<lparr>room = ''user-'' @ req_user_id ex_request, event = ''message-received'',
       ev_conversationId = param_id ex_request,
       ev_message = Some (replied ex_env ex_world 1 ''Hi there'' [])\<rparr>]"
proof -
  have v: "valid_submission ex_env ex_request"
    by (rule ex_valid_submission)
  have row: "rows ex_world (param_id ex_request) = Some ex_row"
    by (simp add: ex_defs)
  have key: "row_id ex_row = param_id ex_request"
    by (simp add: ex_defs)
  have owner: "user_id ex_row = req_user_id ex_request"
    by (simp add: ex_defs)
  have q0: "\<not> query_rejects ex_env (queries ex_world)"
    by (simp add: ex_defs)
  have q1: "\<not> query_rejects ex_env (Suc (queries ex_world))"
    by (simp add: ex_defs)
  have q2: "\<not> query_rejects ex_env (Suc (Suc (queries ex_world)))"
    by (simp add: ex_defs)
  have gen: "generateAIResponse ex_env
     (messages (Conversation_new ex_row) @ [submitted ex_env ex_request ex_world])
     (req_user_id ex_request) = Inr \<lparr>ai_content = ''Hi there'', ai_attachments = []\<rparr>"
    by (simp add: generateAIResponse_def submitted_def made_def ex_defs)
  have io: "io ex_env"
    by (simp add: ex_defs)
  have quiet: "emitted ex_world = []"
    by (simp add: ex_defs)
  from C2_reply_is_broadcast [OF v row key owner q0 q1 q2 gen io]
  have "emitted (snd (post_message ex_env ex_request ex_world)) =
          emitted ex_world @
            [\<lparr>room = ''user-'' @ req_user_id ex_request, event = ''message-received'',
              ev_conversationId = param_id ex_request,
              ev_message = Some (replied ex_env ex_world 1 ''Hi there'' [])\<rparr>]"
    by auto
  then have "emitted (snd (post_message ex_env ex_request ex_world)) =
          [\<lparr>room = ''user-'' @ req_user_id ex_request, event = ''message-received'',
            ev_conversationId = param_id ex_request,
            ev_message = Some (replied ex_env ex_world 1 ''Hi there'' [])\<rparr>]"
    by (simp add: quiet)
  with v row key owner q0 q1 q2 gen io show ?thesis
    by blast
qed

text \<open>
  C2 as stated fails: with a failing generator the apology is appended and returned but
  nothing is emitted, although a socket server is registered; with no socket server
  registered nothing is emitted for the generated reply either; and when the database
  rejects the update that stores the generated reply, the reply is returned (with the
  apology after it) and nothing is emitted.
\<close>

theorem C2_counterexample:
  "io ex_env_backend_down \<and>
   (\<exists>c. fst (post_message ex_env_backend_down ex_request ex_world) = message_sent c \<and>
        role (last (messages c)) = Assistant \<and> content (last (messages c)) = fallback_text) \<and>
   emitted (snd (post_message ex_env_backend_down ex_request ex_world)) = [] \<and>
   (\<exists>c. fst (post_message ex_env_no_io ex_request ex_world) = message_sent c \<and>
        role (last (messages c)) = Assistant \<and> content (last (messages c)) = ''Hi there'') \<and>
   emitted (snd (post_message ex_env_no_io ex_request ex_world)) = [] \<and>
   io ex_env_reply_rejected \<and>
   fst (post_message ex_env_reply_rejected ex_request ex_world) =
     message_sent (Conversation_new (stored ex_env 3 ex_row
        [made ex_env 0 0 User ''Hello'' [], made ex_env 1 1 Assistant ''Hi there'' [],
         made ex_env 2 2 Assistant fallback_text []])) \<and>
   emitted (snd (post_message ex_env_reply_rejected ex_request ex_world)) = []"
  by (simp add: ex_defs ex_env_backend_down_def ex_env_no_io_def ex_env_reply_rejected_def
      run_defs trim_def is_space_def stored_def made_def numeral_2_eq_2 numeral_3_eq_3)

section \<open>Renaming, and the list after an update\<close>

text \<open>
  C7, as amended. After a successful rename, and after a successful submission, the row
  stored under the conversation's id is the conversation returned, and its
  \<^verbatim>\<open>updated_at\<close> is the database's current timestamp at the last query of the call. On
  the client, \<^verbatim>\<open>sendMessage\<close> and \<^verbatim>\<open>updateConversationTitle\<close>, when the response they
  await has \<^verbatim>\<open>success\<close> set and carries a conversation under \<^verbatim>\<open>data\<close>, throw nothing
  and replace the summary with that conversation's id where it stands in the list: the
  list keeps its length and the order of its ids, and nothing is moved to the front or
  inserted.
\<close>

theorem C7_update_stamps_row_and_replaces_summary_in_place:
  assumes row: "rows w (param_id req) = Some r" and key: "row_id r = param_id req"
  shows "(fst (put_conversation e req w) = Response 200 (ConversationBody t c) \<longrightarrow>
           (\<exists>r'. rows (snd (put_conversation e req w)) (param_id req) = Some r' \<and>
              c = Conversation_new r' \<and>
              updated_at r' =
                current_timestamp e (queries (snd (put_conversation e req w)) - 1))) \<and>
         (fst (post_message e req w) = Response 200 (ConversationBody t' c') \<longrightarrow>
           (\<exists>r'. rows (snd (post_message e req w)) (param_id req) = Some r' \<and>
              c' = Conversation_new r' \<and>
              updated_at r' =
                current_timestamp e (queries (snd (post_message e req w)) - 1))) \<and>
         (api_success resp \<and> api_data resp = Some cl \<longrightarrow>
            fst (updateConversationTitle s i (Inr resp)) = None \<and>
            conversations (snd (updateConversationTitle s i (Inr resp))) =
              map (\<lambda>x. if sum_id x = conv_id cl then getSummary cl else x) (conversations s) \<and>
            map sum_id (conversations (snd (updateConversationTitle s i (Inr resp)))) =
              map sum_id (conversations s) \<and>
            fst (sendMessage s (Inr resp)) = None \<and>
            conversations (snd (sendMessage s (Inr resp))) =
              map (\<lambda>x. if sum_id x = conv_id cl then getSummary cl else x) (conversations s) \<and>
            map sum_id (conversations (snd (sendMessage s (Inr resp)))) =
              map sum_id (conversations s))"
proof -
  have "\<exists>r'. rows (snd (put_conversation e req w)) (param_id req) = Some r' \<and>
              c = Conversation_new r' \<and>
              updated_at r' =
                current_timestamp e (queries (snd (put_conversation e req w)) - 1)"
    if "fst (put_conversation e req w) = Response 200 (ConversationBody t c)"
    using put_conversation_sent [OF that row key] by blast
  moreover have "\<exists>r'. rows (snd (post_message e req w)) (param_id req) = Some r' \<and>
              c' = Conversation_new r' \<and>
              updated_at r' =
                current_timestamp e (queries (snd (post_message e req w)) - 1)"
    if "fst (post_message e req w) = Response 200 (ConversationBody t' c')"
    using post_message_sent_row [OF that row key] by blast
  ultimately show ?thesis
    by (simp add: conversations_sendMessage conversations_updateConversationTitle
        map_sum_id_replace)
qed

theorem C7_update_stamps_row_and_replaces_summary_in_place_witness:
  "rows ex_world (param_id ex_request) = Some ex_row \<and>
   row_id ex_row = param_id ex_request \<and>
   fst (put_conversation ex_env ex_request ex_world) =
     Response 200 (ConversationBody ''Conversation updated successfully'' ex_renamed) \<and>
   fst (post_message ex_env ex_request ex_world) =
     Response 200 (ConversationBody ''Message sent successfully'' ex_answered) \<and>
   (\<exists>r'. rows (snd (put_conversation ex_env ex_request ex_world)) (param_id ex_request) =
           Some r' \<and>
         ex_renamed = Conversation_new r' \<and>
         updated_at r' =
           current_timestamp ex_env
             (queries (snd (put_conversation ex_env ex_request ex_world)) - 1)) \<and>
   (\<exists>r'. rows (snd (post_message ex_env ex_request ex_world)) (param_id ex_request) =
           Some r' \<and>
         ex_answered = Conversation_new r' \<and>
         updated_at r' =
           current_timestamp ex_env
             (queries (snd (post_message ex_env ex_request ex_world)) - 1)) \<and>
   ex_wrapped ex_answered =
     Inr \<lparr>api_success = True, api_data = Some ex_answered, api_error = None\<rparr> \<and>
   fst (sendMessage ex_state (ex_wrapped ex_answered)) = None \<and>
   conversations (snd (sendMessage ex_state (ex_wrapped ex_answered))) =
     map (\<lambda>x. if sum_id x = conv_id ex_answered then getSummary ex_answered else x)
       (conversations ex_state) \<and>
   map sum_id (conversations (snd (sendMessage ex_state (ex_wrapped ex_answered)))) =
     map sum_id (conversations ex_state)"
proof -
  let ?resp = "\<lparr>api_success = True, api_data = Some ex_answered, api_error = None\<rparr>"
  have row: "rows ex_world (param_id ex_request) = Some ex_row"
    by (simp add: ex_defs)
  have key: "row_id ex_row = param_id ex_request"
    by (simp add: ex_defs)
  have renamed: "fst (put_conversation ex_env ex_request ex_world) =
     Response 200 (ConversationBody ''Conversation updated successfully'' ex_renamed)"
    by (simp add: ex_put_conversation)
  have answered: "fst (post_message ex_env ex_request ex_world) =
     Response 200 (ConversationBody ''Message sent successfully'' ex_answered)"
    by (simp add: ex_post_message message_sent_def)
  have wrapped: "ex_wrapped ex_answered = Inr ?resp"
    by (simp add: ex_wrapped_def)
  have shape: "api_success ?resp \<and> api_data ?resp = Some ex_answered"
    by simp
  from row key renamed answered shape
    C7_update_stamps_row_and_replaces_summary_in_place [OF row key,
      of ex_env "''Conversation updated successfully''" ex_renamed
         "''Message sent successfully''" ex_answered ?resp ex_answered ex_state]
  show ?thesis unfolding wrapped by blast
qed

text \<open>
  C7 as stated fails on the client. The example submission and the example rename both
  succeed on the server. Given the body the route really sends, the client throws and
  its list stays as it was, the renamed or answered conversation second and its summary
  not even updated. Given the same conversation in the shape the client tests for, the
  summary is updated where it stands, second, behind an entry updated earlier.
\<close>

theorem C7_counterexample:
  "fst (post_message ex_env ex_request ex_world) = message_sent ex_answered \<and>
   map sum_id (conversations ex_state) =
     [''0c0c0c0c-1111-4222-8333-444444444444'', conv_id ex_answered] \<and>
   fst (sendMessage ex_state (apiService_await (message_sent ex_answered))) =
     Some ''Failed to send message'' \<and>
   conversations (snd (sendMessage ex_state (apiService_await (message_sent ex_answered)))) =
     conversations ex_state \<and>
   map sum_updatedAt (conversations ex_state) = [900, 500] \<and>
   map sum_id (conversations (snd (sendMessage ex_state (ex_wrapped ex_answered)))) =
     [''0c0c0c0c-1111-4222-8333-444444444444'', conv_id ex_answered] \<and>
   map sum_updatedAt (conversations (snd (sendMessage ex_state (ex_wrapped ex_answered)))) =
     [900, 2002] \<and>
   fst (put_conversation ex_env ex_request ex_world) =
     Response 200 (ConversationBody ''Conversation updated successfully'' ex_renamed) \<and>
   conv_id ex_renamed = conv_id ex_answered \<and>
   fst (updateConversationTitle ex_state (param_id ex_request)
         (apiService_await (fst (put_conversation ex_env ex_request ex_world)))) =
     Some ''Failed to update conversation'' \<and>
   conversations (snd (updateConversationTitle ex_state (param_id ex_request)
         (apiService_await (fst (put_conversation ex_env ex_request ex_world))))) =
     conversations ex_state \<and>
   map sum_id (conversations (snd (updateConversationTitle ex_state (param_id ex_request)
         (ex_wrapped ex_renamed)))) =
     [''0c0c0c0c-1111-4222-8333-444444444444'', conv_id ex_renamed] \<and>
   map sum_updatedAt (conversations (snd (updateConversationTitle ex_state
         (param_id ex_request) (ex_wrapped ex_renamed)))) =
     [900, 2001]"
proof -
  have sent: "fst (post_message ex_env ex_request ex_world) = message_sent ex_answered"
    by (simp add: ex_post_message)
  have renamed: "fst (put_conversation ex_env ex_request ex_world) =
     Response 200 (ConversationBody ''Conversation updated successfully'' ex_renamed)"
    by (simp add: ex_put_conversation)
  have listed: "conversations ex_state =
     [\<lparr>sum_id = ''0c0c0c0c-1111-4222-8333-444444444444'', sum_title = ''Newest'',
       messageCount = 0, lastMessage = None, sum_createdAt = 900, sum_updatedAt = 900\<rparr>,
      getSummary ex_conversation]"
    by (simp add: ex_state_def)
  have opened: "conv_id ex_conversation = ''7d9f0c1a-2b3c-4d5e-8f60-718293a4b5c6''"
    "sum_updatedAt (getSummary ex_conversation) = 500"
    by (simp_all add: ex_conversation_def getSummary_def)
  have stamps: "sum_updatedAt (getSummary ex_answered) = 2002"
    "sum_updatedAt (getSummary ex_renamed) = 2001"
    by (simp_all add: getSummary_def ex_returned_fields)
  have wrapped: "api_success \<lparr>api_success = True, api_data = Some c, api_error = None\<rparr> \<and>
      api_data \<lparr>api_success = True, api_data = Some c, api_error = None\<rparr> = Some c" for c
    by simp
  from sent renamed show ?thesis
    unfolding renamed
    by (simp add: message_sent_def sendMessage_ConversationBody
        updateConversationTitle_ConversationBody ex_wrapped_def
        conversations_sendMessage conversations_updateConversationTitle
        listed opened stamps ex_returned_fields)
qed

end
